theory Spec2Isabelle
  imports Complex_Main "HOL-Library.Monad_Syntax" "HOL-Library.Sublist" "HOL-Library.AList"
begin

section \<open>Composite emission-line models\<close>

text \<open>
  The fitting code builds its models from \<^verbatim>\<open>astropy.modeling\<close>: a \<^verbatim>\<open>Gaussian1D\<close> has a
  name and the parameters amplitude, mean and stddev, a \<^verbatim>\<open>Const1D\<close> has a name and an
  amplitude, and \<^verbatim>\<open>a + b + c\<close> is the compound model with the submodels \<^verbatim>\<open>a, b, c\<close> in
  this order. A model is the list of its submodels; a model that is not compound is a list
  of length one. Numbers are real numbers: rounding and NaN inputs are outside the model.
  A Python exception is the value \<open>None\<close>.
\<close>

datatype submodel = Gaussian1D string real real real | Const1D string real

type_synonym model = "submodel list"

fun name :: "submodel \<Rightarrow> string" where
  "name (Gaussian1D n a m s) = n"
| "name (Const1D n a) = n"

fun amplitude :: "submodel \<Rightarrow> real" where
  "amplitude (Gaussian1D n a m s) = a"
| "amplitude (Const1D n a) = a"

text \<open>A constant has neither mean nor stddev: reading them raises AttributeError.\<close>

fun mean :: "submodel \<Rightarrow> real option" where
  "mean (Gaussian1D n a m s) = Some m"
| "mean (Const1D n a) = None"

fun stddev :: "submodel \<Rightarrow> real option" where
  "stddev (Gaussian1D n a m s) = Some s"
| "stddev (Const1D n a) = None"


definition submodel_names :: "model \<Rightarrow> string list" where
  "submodel_names gfit = map name gfit"

text \<open>
  \<^verbatim>\<open>gfit['hb_n']\<close>: the submodel of that name. A compound model raises IndexError when no
  submodel, or more than one, has the name.
\<close>

definition getitem :: "model \<Rightarrow> string \<Rightarrow> submodel option" where
  "getitem gfit n = (case filter (\<lambda>c. name c = n) gfit of [c] \<Rightarrow> Some c | _ \<Rightarrow> None)"

subsection \<open>Tied parameters and the optimizer\<close>

datatype param = Amplitude | Mean | Stddev

fun set_param :: "param \<Rightarrow> real \<Rightarrow> submodel \<Rightarrow> submodel" where
  "set_param Amplitude v (Gaussian1D n a m s) = Gaussian1D n v m s"
| "set_param Mean v (Gaussian1D n a m s) = Gaussian1D n a v s"
| "set_param Stddev v (Gaussian1D n a m s) = Gaussian1D n a m v"
| "set_param Amplitude v (Const1D n a) = Const1D n v"
| "set_param Mean v (Const1D n a) = Const1D n a"
| "set_param Stddev v (Const1D n a) = Const1D n a"

definition update :: "model \<Rightarrow> string \<Rightarrow> param \<Rightarrow> real \<Rightarrow> model" where
  "update g n p v = map (\<lambda>c. if name c = n then set_param p v c else c) g"

text \<open>
  A tie (\<^verbatim>\<open>g.mean.tied = f\<close>) is a function of the whole model. The ties of a model are
  listed in the order of the model's parameters (submodel by submodel, amplitude, mean,
  stddev), the order in which astropy evaluates them.
\<close>

type_synonym tie = "string \<times> param \<times> (model \<Rightarrow> real option)"

fun apply_ties :: "tie list \<Rightarrow> model \<Rightarrow> model option" where
  "apply_ties [] g = Some g"
| "apply_ties ((n, p, f) # ts) g = do { v \<leftarrow> f g; apply_ties ts (update g n p v) }"

text \<open>
  The least-squares optimizer is outside the repository. It is a parameter \<open>opt\<close> of the
  model: given the initial model (the spectrum, the weights and \<^verbatim>\<open>maxiter = 1000\<close> are
  fixed in it), it chooses a value for every parameter of every submodel. The fitted model
  is the initial model with these values, every tied parameter then being recomputed from
  its tie: \<^verbatim>\<open>fitter(g_init, lam, flam, weights = np.sqrt(ivar), maxiter = 1000)\<close>. Bounds only
  restrict the optimizer and are not part of the model.
\<close>

type_synonym optimizer = "model \<Rightarrow> string \<Rightarrow> param \<Rightarrow> real"

fun assign :: "(string \<Rightarrow> param \<Rightarrow> real) \<Rightarrow> submodel \<Rightarrow> submodel" where
  "assign v (Gaussian1D n a m s) = Gaussian1D n (v n Amplitude) (v n Mean) (v n Stddev)"
| "assign v (Const1D n a) = Const1D n (v n Amplitude)"

definition LevMarLSQFitter :: "optimizer \<Rightarrow> tie list \<Rightarrow> model \<Rightarrow> model option" where
  "LevMarLSQFitter opt tied g_init = apply_ties tied (map (assign (opt g_init)) g_init)"

text \<open>
  \<^verbatim>\<open>mfit.calculate_red_chi2(flam, gfit(lam), ivar, n_free_params = n)\<close> is a parameter
  \<open>red_chi2 gfit n\<close> of the model, the spectrum being fixed in it.
\<close>

type_synonym chi2 = "model \<Rightarrow> nat \<Rightarrow> real"

text \<open>\<^verbatim>\<open>max(flam)\<close> and \<^verbatim>\<open>np.max(flam[...])\<close> raise ValueError on an empty array.\<close>

definition py_max :: "real list \<Rightarrow> real option" where
  "py_max xs = (case xs of [] \<Rightarrow> None | x # ys \<Rightarrow> Some (fold max ys x))"

text \<open>\<^verbatim>\<open>flam[(lam >= lo) & (lam <= hi)]\<close>\<close>

definition window_closed :: "real list \<Rightarrow> real list \<Rightarrow> real \<Rightarrow> real \<Rightarrow> real list" where
  "window_closed lam flam lo hi = map snd (filter (\<lambda>(l, f). lo \<le> l \<and> l \<le> hi) (zip lam flam))"

section \<open>The [SII] doublet: \<^verbatim>\<open>fit_lines.fit_sii_lines\<close>\<close>

text \<open>The ties of \<^verbatim>\<open>fit_one_component\<close>.\<close>

definition tie_mean_sii_1comp :: "model \<Rightarrow> real option" where
  "tie_mean_sii_1comp model = do {
     g \<leftarrow> getitem model ''sii6716''; m \<leftarrow> mean g; Some (m + 14.329) }"

definition tie_std_sii :: "model \<Rightarrow> real option" where
  "tie_std_sii model = do {
     g1 \<leftarrow> getitem model ''sii6716''; s1 \<leftarrow> stddev g1; m1 \<leftarrow> mean g1;
     g2 \<leftarrow> getitem model ''sii6731''; m2 \<leftarrow> mean g2;
     Some (s1 * (m2 / m1)) }"

definition fit_sii_lines_fit_one_component ::
    "optimizer \<Rightarrow> chi2 \<Rightarrow> real list \<Rightarrow> bool \<Rightarrow> (model \<times> real) option" where
  "fit_sii_lines_fit_one_component opt red_chi2 flam_sii fit_cont = do {
     amp_sii \<leftarrow> py_max flam_sii;
     let g_sii6716 = Gaussian1D ''sii6716'' amp_sii 6718.294 2.9;
     let g_sii6731 = Gaussian1D ''sii6731'' amp_sii 6732.673 2.9;
     let tied = [(''sii6731'', Mean, tie_mean_sii_1comp), (''sii6731'', Stddev, tie_std_sii)];
     if fit_cont then do {
       let cont = Const1D ''sii_cont'' 0;
       gfit_1comp \<leftarrow> LevMarLSQFitter opt tied [cont, g_sii6716, g_sii6731];
       Some (gfit_1comp, red_chi2 gfit_1comp 5) }
     else do {
       gfit_1comp \<leftarrow> LevMarLSQFitter opt tied [g_sii6716, g_sii6731];
       Some (gfit_1comp, red_chi2 gfit_1comp 4) } }"

text \<open>The ties of \<^verbatim>\<open>fit_two_components\<close>.\<close>

definition tie_mean_sii_2comp :: "model \<Rightarrow> real option" where
  "tie_mean_sii_2comp model = do {
     g \<leftarrow> getitem model ''sii6716''; m \<leftarrow> mean g; Some (m + 14.379) }"

definition tie_mean_sii_out :: "model \<Rightarrow> real option" where
  "tie_mean_sii_out model = do {
     g \<leftarrow> getitem model ''sii6716_out''; m \<leftarrow> mean g; Some (m + 14.379) }"

definition tie_std_sii_out :: "model \<Rightarrow> real option" where
  "tie_std_sii_out model = do {
     g1 \<leftarrow> getitem model ''sii6716_out''; s1 \<leftarrow> stddev g1; m1 \<leftarrow> mean g1;
     g2 \<leftarrow> getitem model ''sii6731_out''; m2 \<leftarrow> mean g2;
     Some (s1 * (m2 / m1)) }"

definition tie_amp_sii :: "model \<Rightarrow> real option" where
  "tie_amp_sii model = do {
     g2 \<leftarrow> getitem model ''sii6731''; g1 \<leftarrow> getitem model ''sii6716'';
     g3 \<leftarrow> getitem model ''sii6716_out'';
     Some ((amplitude g2 / amplitude g1) * amplitude g3) }"

definition fit_sii_lines_fit_two_components ::
    "optimizer \<Rightarrow> chi2 \<Rightarrow> real list \<Rightarrow> bool \<Rightarrow> (model \<times> real) option" where
  "fit_sii_lines_fit_two_components opt red_chi2 flam_sii fit_cont = do {
     amp_sii \<leftarrow> py_max flam_sii;
     let g_sii6716 = Gaussian1D ''sii6716'' (amp_sii / 3) 6718.294 2.9;
     let g_sii6731 = Gaussian1D ''sii6731'' (amp_sii / 3) 6732.673 2.9;
     let g_sii6716_out = Gaussian1D ''sii6716_out'' (amp_sii / 6) 6718.294 4;
     let g_sii6731_out = Gaussian1D ''sii6731_out'' (amp_sii / 6) 6732.673 4;
     let tied = [(''sii6731'', Mean, tie_mean_sii_2comp), (''sii6731'', Stddev, tie_std_sii),
                 (''sii6731_out'', Amplitude, tie_amp_sii),
                 (''sii6731_out'', Mean, tie_mean_sii_out),
                 (''sii6731_out'', Stddev, tie_std_sii_out)];
     if fit_cont then do {
       let cont = Const1D ''sii_cont'' 0;
       gfit_2comp \<leftarrow> LevMarLSQFitter opt tied
                      [cont, g_sii6716, g_sii6731, g_sii6716_out, g_sii6731_out];
       Some (gfit_2comp, red_chi2 gfit_2comp 8) }
     else do {
       gfit_2comp \<leftarrow> LevMarLSQFitter opt tied
                      [g_sii6716, g_sii6731, g_sii6716_out, g_sii6731_out];
       Some (gfit_2comp, red_chi2 gfit_2comp 7) } }"

section \<open>The [OIII] doublet: \<^verbatim>\<open>fit_lines.fit_oiii_lines\<close>\<close>

definition tie_mean_oiii :: "model \<Rightarrow> real option" where
  "tie_mean_oiii model = do {
     g \<leftarrow> getitem model ''oiii4959''; m \<leftarrow> mean g; Some (m + 47.934) }"

definition tie_amp_oiii :: "model \<Rightarrow> real option" where
  "tie_amp_oiii model = do { g \<leftarrow> getitem model ''oiii4959''; Some (amplitude g * 2.98) }"

definition tie_std_oiii :: "model \<Rightarrow> real option" where
  "tie_std_oiii model = do {
     g1 \<leftarrow> getitem model ''oiii4959''; s1 \<leftarrow> stddev g1; m1 \<leftarrow> mean g1;
     g2 \<leftarrow> getitem model ''oiii5007''; m2 \<leftarrow> mean g2;
     Some (s1 * (m2 / m1)) }"

definition tie_mean_oiii_out :: "model \<Rightarrow> real option" where
  "tie_mean_oiii_out model = do {
     g \<leftarrow> getitem model ''oiii4959_out''; m \<leftarrow> mean g; Some (m + 47.934) }"

definition tie_amp_oiii_out :: "model \<Rightarrow> real option" where
  "tie_amp_oiii_out model = do {
     g \<leftarrow> getitem model ''oiii4959_out''; Some (amplitude g * 2.98) }"

definition tie_std_oiii_out :: "model \<Rightarrow> real option" where
  "tie_std_oiii_out model = do {
     g1 \<leftarrow> getitem model ''oiii4959_out''; s1 \<leftarrow> stddev g1; m1 \<leftarrow> mean g1;
     g2 \<leftarrow> getitem model ''oiii5007_out''; m2 \<leftarrow> mean g2;
     Some (s1 * (m2 / m1)) }"

definition fit_oiii_lines_fit_one_component ::
    "optimizer \<Rightarrow> chi2 \<Rightarrow> real list \<Rightarrow> real list \<Rightarrow> bool \<Rightarrow> (model \<times> real) option" where
  "fit_oiii_lines_fit_one_component opt red_chi2 lam_oiii flam_oiii fit_cont = do {
     amp_oiii4959 \<leftarrow> py_max (window_closed lam_oiii flam_oiii 4959 4961);
     amp_oiii5007 \<leftarrow> py_max (window_closed lam_oiii flam_oiii 5007 5009);
     let g_oiii4959 = Gaussian1D ''oiii4959'' amp_oiii4959 4960.295 1;
     let g_oiii5007 = Gaussian1D ''oiii5007'' amp_oiii5007 5008.239 1;
     let tied = [(''oiii5007'', Amplitude, tie_amp_oiii), (''oiii5007'', Mean, tie_mean_oiii),
                 (''oiii5007'', Stddev, tie_std_oiii)];
     if fit_cont then do {
       let cont = Const1D ''oiii_cont'' 0;
       gfit_1comp \<leftarrow> LevMarLSQFitter opt tied [cont, g_oiii4959, g_oiii5007];
       Some (gfit_1comp, red_chi2 gfit_1comp 4) }
     else do {
       gfit_1comp \<leftarrow> LevMarLSQFitter opt tied [g_oiii4959, g_oiii5007];
       Some (gfit_1comp, red_chi2 gfit_1comp 3) } }"

definition fit_oiii_lines_fit_two_components ::
    "optimizer \<Rightarrow> chi2 \<Rightarrow> real list \<Rightarrow> real list \<Rightarrow> bool \<Rightarrow> (model \<times> real) option" where
  "fit_oiii_lines_fit_two_components opt red_chi2 lam_oiii flam_oiii fit_cont = do {
     amp_oiii4959 \<leftarrow> py_max (window_closed lam_oiii flam_oiii 4959 4961);
     amp_oiii5007 \<leftarrow> py_max (window_closed lam_oiii flam_oiii 5007 5009);
     let g_oiii4959 = Gaussian1D ''oiii4959'' (amp_oiii4959 / 2) 4960.295 1;
     let g_oiii5007 = Gaussian1D ''oiii5007'' (amp_oiii5007 / 2) 5008.239 1;
     let g_oiii4959_out = Gaussian1D ''oiii4959_out'' (amp_oiii4959 / 4) 4960.295 6;
     let g_oiii5007_out = Gaussian1D ''oiii5007_out'' (amp_oiii5007 / 4) 5008.239 6;
     let tied = [(''oiii5007'', Amplitude, tie_amp_oiii), (''oiii5007'', Mean, tie_mean_oiii),
                 (''oiii5007'', Stddev, tie_std_oiii),
                 (''oiii5007_out'', Amplitude, tie_amp_oiii_out),
                 (''oiii5007_out'', Mean, tie_mean_oiii_out),
                 (''oiii5007_out'', Stddev, tie_std_oiii_out)];
     if fit_cont then do {
       let cont = Const1D ''oiii_cont'' 0;
       gfit_2comp \<leftarrow> LevMarLSQFitter opt tied
                      [cont, g_oiii4959, g_oiii5007, g_oiii4959_out, g_oiii5007_out];
       Some (gfit_2comp, red_chi2 gfit_2comp 7) }
     else do {
       gfit_2comp \<leftarrow> LevMarLSQFitter opt tied
                      [g_oiii4959, g_oiii5007, g_oiii4959_out, g_oiii5007_out];
       Some (gfit_2comp, red_chi2 gfit_2comp 6) } }"

section \<open>Numeric utilities: \<^verbatim>\<open>measure_fits\<close>\<close>

text \<open>
  The module \<^verbatim>\<open>measure_fits\<close> is not part of the sources at hand; its functions follow the
  specification, section 4.1.
\<close>

definition speed_of_light :: real where
  \<comment> \<open>Modelled from the spec: the speed of light in km/s used by \<^verbatim>\<open>lamspace_to_velspace\<close>.\<close>
  "speed_of_light = 299792.458"

definition lamspace_to_velspace :: "real \<Rightarrow> real \<Rightarrow> real" where
  \<comment> \<open>Modelled from the spec: \<^verbatim>\<open>measure_fits.lamspace_to_velspace\<close> without errors,
      \<^verbatim>\<open>sigma_kms = stddev_lambda / mean_lambda * speed_of_light\<close>.\<close>
  "lamspace_to_velspace del_lam lam_ref = (del_lam / lam_ref) * speed_of_light"

definition compute_emline_flux :: "real \<Rightarrow> real \<Rightarrow> real" where
  \<comment> \<open>Modelled from the spec: \<^verbatim>\<open>measure_fits.compute_emline_flux\<close> without errors,
      \<^verbatim>\<open>amplitude * stddev * sqrt(2 pi)\<close>.\<close>
  "compute_emline_flux amp std = amp * std * sqrt (2 * pi)"

text \<open>
  \<^verbatim>\<open>mfit.lamspace_to_velspace(gfit[n].stddev.value, gfit[n].mean.value)\<close>: the velocity
  dispersion in km/s of the submodel named \<open>n\<close>.
\<close>

definition sigma_kms :: "model \<Rightarrow> string \<Rightarrow> real option" where
  "sigma_kms gfit n = do {
     g \<leftarrow> getitem gfit n; s \<leftarrow> stddev g; m \<leftarrow> mean g;
     Some (lamspace_to_velspace s m) }"

section \<open>Broad-component selection in the H-beta and [NII]+H-alpha fitters\<close>

text \<open>
  Each of the eight entry points of \<^verbatim>\<open>fit_hb_line\<close> and \<^verbatim>\<open>fit_nii_ha_lines\<close> builds an
  initial model without and one with a broad Gaussian, runs the optimizer on both and
  then selects one of the two fits. The two optimizer results \<open>gfit_no_broad\<close> and
  \<open>gfit_broad\<close> are the inputs of the functions below, which embed the rest of each entry
  point: the two reduced chi-squares with their \<^verbatim>\<open>n_free_params\<close>, the exchange of outflow
  and broad component, the flag bits, the selection and the degrees of freedom. The result
  is \<^verbatim>\<open>(gfit, rchi2, flag_bits, n_dof)\<close>.
\<close>

type_synonym fit_result = "model \<times> real \<times> nat list \<times> nat"

text \<open>
  \<^verbatim>\<open>del_rchi2 = ((rchi2_no_broad - rchi2_broad)/rchi2_no_broad)*100\<close> and the test
  \<^verbatim>\<open>del_rchi2 >= 20\<close>. The reduced chi-squares are numpy floats: with a zero denominator
  the quotient is plus or minus infinity or NaN, and the test holds exactly for plus
  infinity, that is for a negative \<open>rchi2_broad\<close>.
\<close>

definition del_rchi2_ge_20 :: "real \<Rightarrow> real \<Rightarrow> bool" where
  "del_rchi2_ge_20 rchi2_no_broad rchi2_broad =
     (if rchi2_no_broad = 0 then rchi2_broad < 0
      else ((rchi2_no_broad - rchi2_broad) / rchi2_no_broad) * 100 \<ge> 20)"

text \<open>\<^verbatim>\<open>Gaussian1D(amplitude = g.amplitude, mean = g.mean, stddev = g.stddev, name = n)\<close>\<close>

fun gaussian_named :: "string \<Rightarrow> submodel \<Rightarrow> submodel option" where
  "gaussian_named n (Gaussian1D n' a m s) = Some (Gaussian1D n a m s)"
| "gaussian_named n (Const1D n' a) = None"

subsection \<open>\<^verbatim>\<open>fit_lines.fit_hb_line\<close>\<close>

definition fit_hb_line_fit_free_one_component ::
    "chi2 \<Rightarrow> model \<Rightarrow> model \<Rightarrow> bool \<Rightarrow> fit_result option" where
  "fit_hb_line_fit_free_one_component red_chi2 gfit_no_broad gfit_broad fit_cont = do {
     let rchi2_no_broad = (if fit_cont then red_chi2 gfit_no_broad 4
                           else red_chi2 gfit_no_broad 3);
     let rchi2_broad = (if fit_cont then red_chi2 gfit_broad 7 else red_chi2 gfit_broad 6);
     sig_hb_n \<leftarrow> sigma_kms gfit_broad ''hb_n'';
     sig_hb_b \<leftarrow> sigma_kms gfit_broad ''hb_b'';
     let flag_bits = sort ([0]
           @ (if del_rchi2_ge_20 rchi2_no_broad rchi2_broad then [4] else [])
           @ (if sig_hb_b < sig_hb_n then [5] else [])
           @ (if sig_hb_n < 40 then [9] else []));
     if del_rchi2_ge_20 rchi2_no_broad rchi2_broad \<and> sig_hb_b > sig_hb_n \<and> sig_hb_n \<ge> 40
     then Some (gfit_broad, rchi2_broad, flag_bits, if fit_cont then 7 else 6)
     else Some (gfit_no_broad, rchi2_no_broad, flag_bits, if fit_cont then 4 else 3) }"

text \<open>
  The exchange of the two-component free-width fit: when the fitted broad component is
  narrower than the fitted outflow component, flag bit 6 is set and the with-broad model
  is rebuilt as the sum of three new Gaussians.
\<close>

definition hb_exchange :: "model \<Rightarrow> (nat list \<times> model) option" where
  "hb_exchange gfit_broad = do {
     sigma_hb_b \<leftarrow> sigma_kms gfit_broad ''hb_b'';
     sigma_hb_out \<leftarrow> sigma_kms gfit_broad ''hb_out'';
     if sigma_hb_b < sigma_hb_out then do {
       n \<leftarrow> getitem gfit_broad ''hb_n'';
       g_hb_n \<leftarrow> gaussian_named ''hb_n'' n;
       b \<leftarrow> getitem gfit_broad ''hb_b'';
       g_hb_out \<leftarrow> gaussian_named ''hb_out'' b;
       out \<leftarrow> getitem gfit_broad ''hb_out'';
       g_hb_b \<leftarrow> gaussian_named ''hb_b'' out;
       Some ([6], [g_hb_n, g_hb_out, g_hb_b]) }
     else Some ([], gfit_broad) }"

definition fit_hb_line_fit_free_two_components ::
    "chi2 \<Rightarrow> model \<Rightarrow> model \<Rightarrow> bool \<Rightarrow> fit_result option" where
  "fit_hb_line_fit_free_two_components red_chi2 gfit_no_broad gfit_broad0 fit_cont = do {
     let rchi2_no_broad = (if fit_cont then red_chi2 gfit_no_broad 7
                           else red_chi2 gfit_no_broad 6);
     let rchi2_broad = (if fit_cont then red_chi2 gfit_broad0 10 else red_chi2 gfit_broad0 9);
     (flag_bits0, gfit_broad) \<leftarrow> hb_exchange gfit_broad0;
     sig_hb_n \<leftarrow> sigma_kms gfit_broad ''hb_n'';
     sig_hb_b \<leftarrow> sigma_kms gfit_broad ''hb_b'';
     let flag_bits = sort (flag_bits0 @ [2]
           @ (if del_rchi2_ge_20 rchi2_no_broad rchi2_broad then [4] else [])
           @ (if sig_hb_b < sig_hb_n then [5] else [])
           @ (if sig_hb_n < 40 then [9] else []));
     if del_rchi2_ge_20 rchi2_no_broad rchi2_broad \<and> sig_hb_b > sig_hb_n \<and> sig_hb_n \<ge> 40
     then Some (gfit_broad, rchi2_broad, flag_bits, if fit_cont then 10 else 9)
     else Some (gfit_no_broad, rchi2_no_broad, flag_bits, if fit_cont then 7 else 6) }"

definition fit_hb_line_fit_fixed_one_component ::
    "chi2 \<Rightarrow> model \<Rightarrow> model \<Rightarrow> bool \<Rightarrow> fit_result option" where
  "fit_hb_line_fit_fixed_one_component red_chi2 gfit_no_broad gfit_broad fit_cont = do {
     let rchi2_no_broad = (if fit_cont then red_chi2 gfit_no_broad 3
                           else red_chi2 gfit_no_broad 2);
     let rchi2_broad = (if fit_cont then red_chi2 gfit_broad 6 else red_chi2 gfit_broad 5);
     sig_hb_n \<leftarrow> sigma_kms gfit_broad ''hb_n'';
     sig_hb_b \<leftarrow> sigma_kms gfit_broad ''hb_b'';
     let flag_bits = sort ([1]
           @ (if del_rchi2_ge_20 rchi2_no_broad rchi2_broad then [4] else [])
           @ (if sig_hb_b < sig_hb_n then [5] else [])
           @ (if sig_hb_n < 40 then [9] else []));
     if del_rchi2_ge_20 rchi2_no_broad rchi2_broad \<and> sig_hb_b > sig_hb_n
     then Some (gfit_broad, rchi2_broad, flag_bits, if fit_cont then 6 else 5)
     else Some (gfit_no_broad, rchi2_no_broad, flag_bits, if fit_cont then 3 else 2) }"

definition fit_hb_line_fit_fixed_two_components ::
    "chi2 \<Rightarrow> model \<Rightarrow> model \<Rightarrow> bool \<Rightarrow> fit_result option" where
  "fit_hb_line_fit_fixed_two_components red_chi2 gfit_no_broad gfit_broad fit_cont = do {
     let rchi2_no_broad = (if fit_cont then red_chi2 gfit_no_broad 5
                           else red_chi2 gfit_no_broad 4);
     let rchi2_broad = (if fit_cont then red_chi2 gfit_broad 8 else red_chi2 gfit_broad 7);
     sig_hb_n \<leftarrow> sigma_kms gfit_broad ''hb_n'';
     sig_hb_b \<leftarrow> sigma_kms gfit_broad ''hb_b'';
     let flag_bits = sort ([3]
           @ (if del_rchi2_ge_20 rchi2_no_broad rchi2_broad then [4] else [])
           @ (if sig_hb_b < sig_hb_n then [5] else [])
           @ (if sig_hb_n < 40 then [9] else []));
     if del_rchi2_ge_20 rchi2_no_broad rchi2_broad \<and> sig_hb_b > sig_hb_n
     then Some (gfit_broad, rchi2_broad, flag_bits, if fit_cont then 8 else 7)
     else Some (gfit_no_broad, rchi2_no_broad, flag_bits, if fit_cont then 5 else 4) }"

subsection \<open>\<^verbatim>\<open>fit_lines.fit_nii_ha_lines\<close>\<close>

definition fit_nii_ha_lines_fit_free_ha_one_component ::
    "chi2 \<Rightarrow> model \<Rightarrow> model \<Rightarrow> bool \<Rightarrow> fit_result option" where
  "fit_nii_ha_lines_fit_free_ha_one_component red_chi2 gfit_no_broad gfit_broad fit_cont = do {
     let rchi2_no_broad = (if fit_cont then red_chi2 gfit_no_broad 6
                           else red_chi2 gfit_no_broad 5);
     let rchi2_broad = (if fit_cont then red_chi2 gfit_broad 9 else red_chi2 gfit_broad 8);
     sig_ha_b \<leftarrow> sigma_kms gfit_broad ''ha_b'';
     sig_ha_n \<leftarrow> sigma_kms gfit_broad ''ha_n'';
     let fwhm_ha_b = 2.355 * sig_ha_b;
     let flag_bits = sort ([0]
           @ (if del_rchi2_ge_20 rchi2_no_broad rchi2_broad then [4] else [])
           @ (if sig_ha_b < sig_ha_n then [5] else [])
           @ (if sig_ha_n < 40 then [10] else []));
     if del_rchi2_ge_20 rchi2_no_broad rchi2_broad \<and> sig_ha_b > sig_ha_n \<and> sig_ha_n \<ge> 40
        \<and> fwhm_ha_b \<ge> 300
     then Some (gfit_broad, rchi2_broad, flag_bits, if fit_cont then 9 else 8)
     else Some (gfit_no_broad, rchi2_no_broad, flag_bits, if fit_cont then 6 else 5) }"

text \<open>
  The exchange of the two-component free-width fit: when the fitted broad component is
  narrower than the fitted outflow component, flag bit 6 is set and the with-broad model
  is rebuilt as the sum of three new Gaussians.
\<close>

definition ha_exchange :: "model \<Rightarrow> (nat list \<times> model) option" where
  "ha_exchange gfit_broad = do {
     sigma_ha_b \<leftarrow> sigma_kms gfit_broad ''ha_b'';
     sigma_ha_out \<leftarrow> sigma_kms gfit_broad ''ha_out'';
     if sigma_ha_b < sigma_ha_out then do {
       n \<leftarrow> getitem gfit_broad ''ha_n'';
       g_ha_n \<leftarrow> gaussian_named ''ha_n'' n;
       b \<leftarrow> getitem gfit_broad ''ha_b'';
       g_ha_out \<leftarrow> gaussian_named ''ha_out'' b;
       out \<leftarrow> getitem gfit_broad ''ha_out'';
       g_ha_b \<leftarrow> gaussian_named ''ha_b'' out;
       Some ([6], [g_ha_n, g_ha_out, g_ha_b]) }
     else Some ([], gfit_broad) }"

definition fit_nii_ha_lines_fit_free_ha_two_components ::
    "chi2 \<Rightarrow> model \<Rightarrow> model \<Rightarrow> bool \<Rightarrow> fit_result option" where
  "fit_nii_ha_lines_fit_free_ha_two_components red_chi2 gfit_no_broad gfit_broad0 fit_cont = do {
     let rchi2_no_broad = (if fit_cont then red_chi2 gfit_no_broad 11
                           else red_chi2 gfit_no_broad 10);
     let rchi2_broad = (if fit_cont then red_chi2 gfit_broad0 14 else red_chi2 gfit_broad0 13);
     (flag_bits0, gfit_broad) \<leftarrow> ha_exchange gfit_broad0;
     sig_ha_b \<leftarrow> sigma_kms gfit_broad ''ha_b'';
     sig_ha_n \<leftarrow> sigma_kms gfit_broad ''ha_n'';
     let fwhm_ha_b = 2.355 * sig_ha_b;
     let flag_bits = sort (flag_bits0 @ [2]
           @ (if del_rchi2_ge_20 rchi2_no_broad rchi2_broad then [4] else [])
           @ (if sig_ha_b < sig_ha_n then [5] else [])
           @ (if sig_ha_n < 40 then [10] else []));
     if del_rchi2_ge_20 rchi2_no_broad rchi2_broad \<and> sig_ha_b > sig_ha_n \<and> sig_ha_n \<ge> 40
        \<and> fwhm_ha_b \<ge> 300
     then Some (gfit_broad, rchi2_broad, flag_bits, if fit_cont then 14 else 13)
     else Some (gfit_no_broad, rchi2_no_broad, flag_bits, if fit_cont then 11 else 10) }"

definition fit_nii_ha_lines_fit_fixed_one_component ::
    "chi2 \<Rightarrow> model \<Rightarrow> model \<Rightarrow> bool \<Rightarrow> fit_result option" where
  "fit_nii_ha_lines_fit_fixed_one_component red_chi2 gfit_no_broad gfit_broad fit_cont = do {
     let rchi2_no_broad = (if fit_cont then red_chi2 gfit_no_broad 5
                           else red_chi2 gfit_no_broad 4);
     let rchi2_broad = (if fit_cont then red_chi2 gfit_broad 8 else red_chi2 gfit_broad 7);
     sig_ha_b \<leftarrow> sigma_kms gfit_broad ''ha_b'';
     sig_ha_n \<leftarrow> sigma_kms gfit_broad ''ha_n'';
     let fwhm_ha_b = 2.355 * sig_ha_b;
     let flag_bits = sort ([1]
           @ (if del_rchi2_ge_20 rchi2_no_broad rchi2_broad then [4] else [])
           @ (if sig_ha_b < sig_ha_n then [5] else [])
           @ (if sig_ha_n < 40 then [10] else []));
     if del_rchi2_ge_20 rchi2_no_broad rchi2_broad \<and> sig_ha_b > sig_ha_n \<and> fwhm_ha_b \<ge> 300
     then Some (gfit_broad, rchi2_broad, flag_bits, if fit_cont then 8 else 7)
     else Some (gfit_no_broad, rchi2_no_broad, flag_bits, if fit_cont then 5 else 4) }"

definition fit_nii_ha_lines_fit_fixed_two_components ::
    "chi2 \<Rightarrow> model \<Rightarrow> model \<Rightarrow> bool \<Rightarrow> fit_result option" where
  "fit_nii_ha_lines_fit_fixed_two_components red_chi2 gfit_no_broad gfit_broad fit_cont = do {
     let rchi2_no_broad = (if fit_cont then red_chi2 gfit_no_broad 9
                           else red_chi2 gfit_no_broad 8);
     let rchi2_broad = (if fit_cont then red_chi2 gfit_broad 12 else red_chi2 gfit_broad 11);
     sig_ha_b \<leftarrow> sigma_kms gfit_broad ''ha_b'';
     sig_ha_n \<leftarrow> sigma_kms gfit_broad ''ha_n'';
     let fwhm_ha_b = 2.355 * sig_ha_b;
     let flag_bits = sort ([3]
           @ (if del_rchi2_ge_20 rchi2_no_broad rchi2_broad then [4] else [])
           @ (if sig_ha_b < sig_ha_n then [5] else [])
           @ (if sig_ha_n < 40 then [10] else []));
     if del_rchi2_ge_20 rchi2_no_broad rchi2_broad \<and> sig_ha_b > sig_ha_n \<and> fwhm_ha_b \<ge> 300
     then Some (gfit_broad, rchi2_broad, flag_bits, if fit_cont then 12 else 11)
     else Some (gfit_no_broad, rchi2_no_broad, flag_bits, if fit_cont then 9 else 8) }"

subsection \<open>The eight entry points, uniformly\<close>

datatype entry_point = Hb_free_one | Hb_free_two | Hb_fixed_one | Hb_fixed_two
                     | Ha_free_one | Ha_free_two | Ha_fixed_one | Ha_fixed_two

fun entry :: "entry_point \<Rightarrow> chi2 \<Rightarrow> model \<Rightarrow> model \<Rightarrow> bool \<Rightarrow> fit_result option" where
  "entry Hb_free_one = fit_hb_line_fit_free_one_component"
| "entry Hb_free_two = fit_hb_line_fit_free_two_components"
| "entry Hb_fixed_one = fit_hb_line_fit_fixed_one_component"
| "entry Hb_fixed_two = fit_hb_line_fit_fixed_two_components"
| "entry Ha_free_one = fit_nii_ha_lines_fit_free_ha_one_component"
| "entry Ha_free_two = fit_nii_ha_lines_fit_free_ha_two_components"
| "entry Ha_fixed_one = fit_nii_ha_lines_fit_fixed_one_component"
| "entry Ha_fixed_two = fit_nii_ha_lines_fit_fixed_two_components"

fun is_ha :: "entry_point \<Rightarrow> bool" where
  "is_ha Hb_free_one = False"
| "is_ha Hb_free_two = False"
| "is_ha Hb_fixed_one = False"
| "is_ha Hb_fixed_two = False"
| "is_ha _ = True"

fun free_width :: "entry_point \<Rightarrow> bool" where
  "free_width Hb_free_one = True"
| "free_width Hb_free_two = True"
| "free_width Ha_free_one = True"
| "free_width Ha_free_two = True"
| "free_width _ = False"

text \<open>The two entry points that exchange outflow and broad component.\<close>

fun exchanging :: "entry_point \<Rightarrow> bool" where
  "exchanging Hb_free_two = True"
| "exchanging Ha_free_two = True"
| "exchanging _ = False"

definition narrow :: "entry_point \<Rightarrow> string" where
  "narrow e = (if is_ha e then ''ha_n'' else ''hb_n'')"

definition broad :: "entry_point \<Rightarrow> string" where
  "broad e = (if is_ha e then ''ha_b'' else ''hb_b'')"

definition outflow :: "entry_point \<Rightarrow> string" where
  "outflow e = (if is_ha e then ''ha_out'' else ''hb_out'')"

text \<open>
  The table of the degrees of freedom: the count of the fit without broad component and
  with continuum, three more for a broad Gaussian, one less without continuum.
\<close>

fun dof_no_broad :: "entry_point \<Rightarrow> nat" where
  "dof_no_broad Hb_free_one = 4"
| "dof_no_broad Hb_free_two = 7"
| "dof_no_broad Hb_fixed_one = 3"
| "dof_no_broad Hb_fixed_two = 5"
| "dof_no_broad Ha_free_one = 6"
| "dof_no_broad Ha_free_two = 11"
| "dof_no_broad Ha_fixed_one = 5"
| "dof_no_broad Ha_fixed_two = 9"

definition dof :: "entry_point \<Rightarrow> bool \<Rightarrow> bool \<Rightarrow> nat" where
  "dof e with_broad fit_cont =
     dof_no_broad e + (if with_broad then 3 else 0) - (if fit_cont then 0 else 1)"

text \<open>
  The with-broad model that the selection examines: the optimizer's result, or in the two
  exchanging entry points the model after the exchange.
\<close>

definition candidate :: "entry_point \<Rightarrow> model \<Rightarrow> model option" where
  "candidate e gfit_broad =
     (if e = Hb_free_two then map_option snd (hb_exchange gfit_broad)
      else if e = Ha_free_two then map_option snd (ha_exchange gfit_broad)
      else Some gfit_broad)"

text \<open>
  The acceptance rule in words: the reduced chi-square improves by at least 20 percent,
  the broad component is wider than the narrow one, in the free-width entry points the
  narrow component has at least 40 km/s, and for H-alpha the broad component has a FWHM of
  at least 300 km/s.
\<close>

definition broad_accepted :: "entry_point \<Rightarrow> real \<Rightarrow> real \<Rightarrow> real \<Rightarrow> real \<Rightarrow> bool" where
  "broad_accepted e rchi2_no_broad rchi2_broad sig_n sig_b =
     (del_rchi2_ge_20 rchi2_no_broad rchi2_broad \<and> sig_b > sig_n
      \<and> (free_width e \<longrightarrow> sig_n \<ge> 40) \<and> (is_ha e \<longrightarrow> 2.355 * sig_b \<ge> 300))"

subsection \<open>Fitted models used as concrete inputs\<close>

text \<open>
  A reduced chi-square of 2 for a fit without broad component and of 1 for a fit with one:
  an improvement of 50 percent.
\<close>

definition ex_red_chi2 :: chi2 where
  "ex_red_chi2 g n =
     (if ''hb_b'' \<in> set (submodel_names g) \<or> ''ha_b'' \<in> set (submodel_names g) then 1 else 2)"

text \<open>One-component H-beta fits with a narrow line of about 37 km/s (stddev 0.6).\<close>

definition ex_hb_no_broad :: model where
  "ex_hb_no_broad = [Const1D ''hb_cont'' 0, Gaussian1D ''hb_n'' 10 4862.683 0.6]"

definition ex_hb_broad :: model where
  "ex_hb_broad = [Const1D ''hb_cont'' 0, Gaussian1D ''hb_n'' 8 4862.683 0.6,
                  Gaussian1D ''hb_b'' 2 4862.683 3]"

text \<open>
  Two-component H-beta fits: narrow 62 km/s, outflow 247 km/s, and a fitted broad
  component of 123 km/s, narrower than the outflow.
\<close>

definition ex_hb2_no_broad :: model where
  "ex_hb2_no_broad = [Const1D ''hb_cont'' 0, Gaussian1D ''hb_n'' 6 4862.683 1,
                      Gaussian1D ''hb_out'' 3 4862.683 4]"

definition ex_hb2_broad :: model where
  "ex_hb2_broad = [Const1D ''hb_cont'' 0, Gaussian1D ''hb_n'' 6 4862.683 1,
                   Gaussian1D ''hb_out'' 3 4862.683 4, Gaussian1D ''hb_b'' 2 4862.683 2]"

definition ex_hb2_exchanged :: model where
  "ex_hb2_exchanged = [Gaussian1D ''hb_n'' 6 4862.683 1, Gaussian1D ''hb_out'' 2 4862.683 2,
                       Gaussian1D ''hb_b'' 3 4862.683 4]"

text \<open>
  Two-component [NII]+H-alpha fits: narrow 50 km/s, outflow 201 km/s (FWHM 473 km/s), and a
  fitted broad component of 100 km/s (FWHM 237 km/s).
\<close>

definition ex_ha2_no_broad :: model where
  "ex_ha2_no_broad = [Const1D ''nii_ha_cont'' 0,
      Gaussian1D ''nii6548'' 1 6549.852 1.1, Gaussian1D ''nii6583'' 2.96 6585.277 1.1,
      Gaussian1D ''nii6548_out'' 1 6549.852 4.4, Gaussian1D ''nii6583_out'' 2.96 6585.277 4.4,
      Gaussian1D ''ha_n'' 6 6564.312 1.1, Gaussian1D ''ha_out'' 3 6564.312 4.4]"

definition ex_ha2_broad :: model where
  "ex_ha2_broad = ex_ha2_no_broad @ [Gaussian1D ''ha_b'' 2 6564.312 2.2]"

definition ex_ha2_exchanged :: model where
  "ex_ha2_exchanged = [Gaussian1D ''ha_n'' 6 6564.312 1.1, Gaussian1D ''ha_out'' 2 6564.312 2.2,
                       Gaussian1D ''ha_b'' 3 6564.312 4.4]"

text \<open>A one-component [NII]+H-alpha fit with a broad component of 100 km/s.\<close>

definition ex_ha_no_broad :: model where
  "ex_ha_no_broad = [Const1D ''nii_ha_cont'' 0,
      Gaussian1D ''nii6548'' 1 6549.852 1.1, Gaussian1D ''nii6583'' 2.96 6585.277 1.1,
      Gaussian1D ''ha_n'' 6 6564.312 1.1]"

definition ex_ha_broad :: model where
  "ex_ha_broad = ex_ha_no_broad @ [Gaussian1D ''ha_b'' 2 6564.312 2.2]"

section \<open>Doublet relations of a fitted model\<close>

definition amplitude_of :: "model \<Rightarrow> string \<Rightarrow> real option" where
  "amplitude_of gfit n = map_option amplitude (getitem gfit n)"

definition mean_of :: "model \<Rightarrow> string \<Rightarrow> real option" where
  "mean_of gfit n = do { g \<leftarrow> getitem gfit n; mean g }"

text \<open>\<^verbatim>\<open>mean(b) - mean(a)\<close> of two submodels of a fitted model.\<close>

definition mean_difference :: "model \<Rightarrow> string \<Rightarrow> string \<Rightarrow> real option" where
  "mean_difference gfit a b = do { ma \<leftarrow> mean_of gfit a; mb \<leftarrow> mean_of gfit b; Some (mb - ma) }"

text \<open>
  The two [OIII] relations in words: the amplitude of the second line is 2.98 times that
  of the first, and its mean lies 47.934 above.
\<close>

definition oiii_pair_tied :: "model \<Rightarrow> string \<Rightarrow> string \<Rightarrow> bool" where
  "oiii_pair_tied gfit a b =
     (amplitude_of gfit a \<noteq> None
      \<and> amplitude_of gfit b = map_option (\<lambda>x. 2.98 * x) (amplitude_of gfit a)
      \<and> mean_difference gfit a b = Some 47.934)"

text \<open>
  An optimizer result used as concrete input: every amplitude 2, every mean at the rest
  wavelength of [SII]6716 and every stddev 2.9, before the ties are applied.
\<close>

definition ex_opt :: optimizer where
  "ex_opt g n p = (case p of Amplitude \<Rightarrow> 2 | Mean \<Rightarrow> 6718.294 | Stddev \<Rightarrow> 2.9)"

definition ex_opt_oiii :: optimizer where
  "ex_opt_oiii g n p = (case p of Amplitude \<Rightarrow> 2 | Mean \<Rightarrow> 4960.295 | Stddev \<Rightarrow> 1)"

definition ex_chi2 :: chi2 where
  "ex_chi2 g n = 1"

text \<open>The fitted [OIII] and [SII] models that the code returns for these optimizer results.\<close>

definition ex_oiii_one :: model where
  "ex_oiii_one = [Const1D ''oiii_cont'' 2, Gaussian1D ''oiii4959'' 2 4960.295 1,
     Gaussian1D ''oiii5007'' 5.96 5008.229 (5008229 / 4960295)]"

definition ex_oiii_two :: model where
  "ex_oiii_two = [Const1D ''oiii_cont'' 2, Gaussian1D ''oiii4959'' 2 4960.295 1,
     Gaussian1D ''oiii5007'' 5.96 5008.229 (5008229 / 4960295),
     Gaussian1D ''oiii4959_out'' 2 4960.295 1,
     Gaussian1D ''oiii5007_out'' 5.96 5008.229 (5008229 / 4960295)]"

definition ex_sii_one :: model where
  "ex_sii_one = [Const1D ''sii_cont'' 2, Gaussian1D ''sii6716'' 2 6718.294 2.9,
     Gaussian1D ''sii6731'' 2 6732.623 (195246067 / 67182940)]"

definition ex_sii_two :: model where
  "ex_sii_two = [Const1D ''sii_cont'' 2, Gaussian1D ''sii6716'' 2 6718.294 2.9,
     Gaussian1D ''sii6731'' 2 6732.673 (195247517 / 67182940),
     Gaussian1D ''sii6716_out'' 2 6718.294 2.9,
     Gaussian1D ''sii6731_out'' 2 6732.673 (195247517 / 67182940)]"

section \<open>Parameters of a winning fit: \<^verbatim>\<open>emline_params.get_parameters\<close>\<close>

text \<open>
  A Python dictionary with string keys is the list of its items in insertion order.
  \<^verbatim>\<open>d[k] = v\<close> replaces the value of an existing key and appends a new key, \<^verbatim>\<open>d[k]\<close>
  raises KeyError for a missing key, and \<^verbatim>\<open>a | b\<close> is \<open>a\<close> updated with the items of \<open>b\<close>.
  The one-row table made of a dictionary has the dictionary's keys as columns.
\<close>

type_synonym 'v dict = "(string \<times> 'v) list"

definition dict_set :: "'v dict \<Rightarrow> string \<Rightarrow> 'v \<Rightarrow> 'v dict" where
  "dict_set d k v = AList.update k v d"

definition dict_get :: "'v dict \<Rightarrow> string \<Rightarrow> 'v option" where
  "dict_get d k = map_of d k"

definition dict_merge :: "'v dict \<Rightarrow> 'v dict \<Rightarrow> 'v dict" where
  "dict_merge a b = fold (\<lambda>(k, v) d. dict_set d k v) b a"

definition colnames :: "'v dict \<Rightarrow> string list" where
  "colnames d = map fst d"

type_synonym params = "real dict"

text \<open>\<^verbatim>\<open>amp, mean, std = g.parameters\<close> raises ValueError for a constant.\<close>

fun unpack_parameters :: "submodel \<Rightarrow> (real \<times> real \<times> real) option" where
  "unpack_parameters (Gaussian1D n a m s) = Some (a, m, s)"
| "unpack_parameters (Const1D n a) = None"

text \<open>
  \<^verbatim>\<open>model in names\<close>: for a compound model \<open>names\<close> is the tuple of the submodel names, for
  a single model it is the model's name, a string, and the test is the substring test.
\<close>

definition model_in_names :: "model \<Rightarrow> string \<Rightarrow> bool" where
  "model_in_names gfit model =
     (case gfit of [c] \<Rightarrow> sublist model (name c) | _ \<Rightarrow> model \<in> set (submodel_names gfit))"

definition model_parameters :: "model \<Rightarrow> string \<Rightarrow> (real \<times> real \<times> real) option" where
  "model_parameters gfit model =
     (case gfit of [c] \<Rightarrow> unpack_parameters c | _ \<Rightarrow> getitem gfit model \<bind> unpack_parameters)"

text \<open>The five assignments \<^verbatim>\<open>params[f'{model}_amplitude'] = [amp]\<close> to \<^verbatim>\<open>params[f'{model}_flux'] = [flux]\<close>.\<close>

definition set_five :: "params \<Rightarrow> string \<Rightarrow> real \<Rightarrow> real \<Rightarrow> real \<Rightarrow> real \<Rightarrow> real \<Rightarrow> params" where
  "set_five params model amp mean_v std sig flux =
     dict_set (dict_set (dict_set (dict_set (dict_set params
       (model @ ''_amplitude'') amp) (model @ ''_mean'') mean_v) (model @ ''_std'') std)
       (model @ ''_sigma'') sig) (model @ ''_flux'') flux"

fun get_parameters_loop :: "model \<Rightarrow> string list \<Rightarrow> params \<Rightarrow> params option" where
  "get_parameters_loop gfit [] params = Some params"
| "get_parameters_loop gfit (model # models) params =
     (if model_in_names gfit model then do {
        (amp, mean_v, std) \<leftarrow> model_parameters gfit model;
        let sig = lamspace_to_velspace std mean_v;
        let flux = compute_emline_flux amp std;
        get_parameters_loop gfit models (set_five params model amp mean_v std sig flux) }
      else get_parameters_loop gfit models (set_five params model 0 0 0 0 0))"

definition get_parameters :: "model \<Rightarrow> string list \<Rightarrow> params option" where
  "get_parameters gfit models = get_parameters_loop gfit models []"

section \<open>One fitting iteration: \<^verbatim>\<open>emline_fitting.fit_spectra_iteration\<close>\<close>

text \<open>
  What an iteration takes from outside the sources at hand, for one spectrum: the
  optimizer and the reduced chi-square on the [SII] and on the [OIII] window, the flux of
  the [SII] window, wavelength and flux of the [OIII] window, and the four selectors of
  the module \<^verbatim>\<open>find_bestfit\<close>, each returning \<^verbatim>\<open>(gfit, rchi2, flag_bits, n_dof)\<close>.
\<close>

record collaborators =
  sii_optimizer :: optimizer
  sii_chi2 :: chi2
  sii_flux :: "real list"
  oiii_optimizer :: optimizer
  oiii_chi2 :: chi2
  oiii_lam :: "real list"
  oiii_flux :: "real list"
  find_sii_best_fit :: "bool \<Rightarrow> fit_result option"
  find_oiii_best_fit :: "bool \<Rightarrow> fit_result option"
  find_hb_best_fit :: "model \<Rightarrow> bool \<Rightarrow> fit_result option"
  find_nii_ha_best_fit :: "model \<Rightarrow> bool \<Rightarrow> fit_result option"

text \<open>
  The [SII] fit and the [OIII] fit of the iteration. With \<open>n_sii\<close> other than 2, 3, 4, 5 or
  \<^verbatim>\<open>None\<close> no branch assigns \<^verbatim>\<open>gfit_sii\<close>, and its first use raises.
\<close>

definition sii_fit :: "collaborators \<Rightarrow> nat option \<Rightarrow> bool \<Rightarrow> (model \<times> real \<times> nat) option" where
  "sii_fit w n_sii fit_cont =
     (if n_sii = Some 2 \<or> n_sii = Some 3 then do {
        (gfit_sii, rchi2_sii) \<leftarrow> fit_sii_lines_fit_one_component (sii_optimizer w) (sii_chi2 w)
                                    (sii_flux w) fit_cont;
        Some (gfit_sii, rchi2_sii, if fit_cont then 5 else 4) }
      else if n_sii = Some 4 \<or> n_sii = Some 5 then do {
        (gfit_sii, rchi2_sii) \<leftarrow> fit_sii_lines_fit_two_components (sii_optimizer w) (sii_chi2 w)
                                    (sii_flux w) fit_cont;
        Some (gfit_sii, rchi2_sii, if fit_cont then 8 else 7) }
      else if n_sii = None then do {
        (gfit_sii, rchi2_sii, bits, sii_dof) \<leftarrow> find_sii_best_fit w fit_cont;
        Some (gfit_sii, rchi2_sii, sii_dof) }
      else None)"

definition oiii_fit :: "collaborators \<Rightarrow> nat option \<Rightarrow> bool \<Rightarrow> (model \<times> real \<times> nat) option" where
  "oiii_fit w n_oiii fit_cont =
     (if n_oiii = Some 2 \<or> n_oiii = Some 3 then do {
        (gfit_oiii, rchi2_oiii) \<leftarrow> fit_oiii_lines_fit_one_component (oiii_optimizer w)
                                      (oiii_chi2 w) (oiii_lam w) (oiii_flux w) fit_cont;
        Some (gfit_oiii, rchi2_oiii, if fit_cont then 4 else 3) }
      else if n_oiii = Some 4 \<or> n_oiii = Some 5 then do {
        (gfit_oiii, rchi2_oiii) \<leftarrow> fit_oiii_lines_fit_two_components (oiii_optimizer w)
                                      (oiii_chi2 w) (oiii_lam w) (oiii_flux w) fit_cont;
        Some (gfit_oiii, rchi2_oiii, if fit_cont then 7 else 6) }
      else if n_oiii = None then do {
        (gfit_oiii, rchi2_oiii, bits, oiii_dof) \<leftarrow> find_oiii_best_fit w fit_cont;
        Some (gfit_oiii, rchi2_oiii, oiii_dof) }
      else None)"

definition hb_models :: "string list" where
  "hb_models = [''hb_n'', ''hb_out'', ''hb_b'']"

definition oiii_models :: "string list" where
  "oiii_models = [''oiii4959'', ''oiii4959_out'', ''oiii5007'', ''oiii5007_out'']"

definition nii_ha_models :: "string list" where
  "nii_ha_models = [''nii6548'', ''nii6548_out'', ''nii6583'', ''nii6583_out'',
                    ''ha_n'', ''ha_out'', ''ha_b'']"

definition sii_models :: "string list" where
  "sii_models = [''sii6716'', ''sii6716_out'', ''sii6731'', ''sii6731_out'']"

text \<open>
  The end of the iteration for one complex: the parameters of the winning model, then
  \<^verbatim>\<open>cont + gfit\<close> with a zero continuum when none was fitted, then the continuum read from
  the submodel named \<^verbatim>\<open>{complex}_cont\<close> and the degrees of freedom.
\<close>

definition complex_params ::
    "string \<Rightarrow> string list \<Rightarrow> model \<Rightarrow> nat \<Rightarrow> bool \<Rightarrow> (model \<times> params) option" where
  "complex_params emline models gfit0 n_dof fit_cont = do {
     params0 \<leftarrow> get_parameters gfit0 models;
     let gfit = (if fit_cont = False then Const1D (emline @ ''_cont'') 0 # gfit0 else gfit0);
     cont \<leftarrow> getitem gfit (emline @ ''_cont'');
     let params = dict_set params0 (emline @ ''_continuum'') (amplitude cont);
     let params = dict_set params (emline @ ''_dof'') (real n_dof);
     Some (gfit, params) }"

definition fit_spectra_iteration ::
    "collaborators \<Rightarrow> nat option \<Rightarrow> nat option \<Rightarrow> bool
       \<Rightarrow> (model list \<times> real list \<times> params) option" where
  "fit_spectra_iteration w n_sii n_oiii fit_cont = do {
     (gfit_sii, rchi2_sii, sii_dof) \<leftarrow> sii_fit w n_sii fit_cont;
     (gfit_oiii, rchi2_oiii, oiii_dof) \<leftarrow> oiii_fit w n_oiii fit_cont;
     (gfit_hb, rchi2_hb, hb_bits, hb_dof) \<leftarrow> find_hb_best_fit w gfit_sii fit_cont;
     (gfit_nii_ha, rchi2_nii_ha, nii_ha_bits, nii_ha_dof)
         \<leftarrow> find_nii_ha_best_fit w gfit_sii fit_cont;
     let rchi2s = [rchi2_hb, rchi2_oiii, rchi2_nii_ha, rchi2_sii];
     (gfit_hb, hb_params) \<leftarrow> complex_params ''hb'' hb_models gfit_hb hb_dof fit_cont;
     (gfit_oiii, oiii_params) \<leftarrow> complex_params ''oiii'' oiii_models gfit_oiii oiii_dof fit_cont;
     (gfit_nii_ha, nii_ha_params)
         \<leftarrow> complex_params ''nii_ha'' nii_ha_models gfit_nii_ha nii_ha_dof fit_cont;
     (gfit_sii, sii_params) \<leftarrow> complex_params ''sii'' sii_models gfit_sii sii_dof fit_cont;
     let fits = [gfit_hb, gfit_oiii, gfit_nii_ha, gfit_sii];
     let params = dict_merge (dict_merge (dict_merge hb_params oiii_params) nii_ha_params)
                    sii_params;
     Some (fits, rchi2s, params) }"

section \<open>The resampling loop: \<^verbatim>\<open>emline_fitting.fit_emline_spectra\<close>\<close>

text \<open>
  A table is the list of its rows, \<^verbatim>\<open>vstack\<close> the concatenation of one-row tables.
  \<^verbatim>\<open>t[k].data\<close> raises KeyError when a row lacks the column.
\<close>

definition column :: "params list \<Rightarrow> string \<Rightarrow> real list option" where
  "column t k = those (map (\<lambda>row. dict_get row k) t)"




subsection \<open>The tables of the degrees of freedom of the doublet fits\<close>

definition two_components :: "nat option \<Rightarrow> bool" where
  "two_components n = (n = Some 4 \<or> n = Some 5)"

definition sii_dof_table :: "bool \<Rightarrow> bool \<Rightarrow> nat" where
  "sii_dof_table two fit_cont = 5 + (if two then 3 else 0) - (if fit_cont then 0 else 1)"

definition oiii_dof_table :: "bool \<Rightarrow> bool \<Rightarrow> nat" where
  "oiii_dof_table two fit_cont = 4 + (if two then 3 else 0) - (if fit_cont then 0 else 1)"

subsection \<open>Collaborators used as concrete inputs\<close>

text \<open>
  The selectors of \<^verbatim>\<open>find_bestfit\<close> hand back the result of an entry point of
  \<^verbatim>\<open>fit_lines\<close>. In \<open>ex_world\<close> the H-beta selector returns the result of the fixed-width
  two-component fit and the [NII]+H-alpha selector that of the fixed-width two-component
  fit; \<open>ex_world_exchange\<close> differs in the H-beta selector only, which returns the result
  of the free-width two-component fit.
\<close>

definition ex_world :: collaborators where
  "ex_world = \<lparr> sii_optimizer = ex_opt, sii_chi2 = ex_chi2, sii_flux = [1, 2],
       oiii_optimizer = ex_opt_oiii, oiii_chi2 = ex_chi2,
       oiii_lam = [4960, 5008], oiii_flux = [1, 3],
       find_sii_best_fit = (\<lambda>fit_cont. map_option (\<lambda>(g, r). (g, r, [], 8))
           (fit_sii_lines_fit_two_components ex_opt ex_chi2 [1, 2] fit_cont)),
       find_oiii_best_fit = (\<lambda>fit_cont. map_option (\<lambda>(g, r). (g, r, [], 4))
           (fit_oiii_lines_fit_one_component ex_opt_oiii ex_chi2 [4960, 5008] [1, 3] fit_cont)),
       find_hb_best_fit = (\<lambda>sii_bestfit fit_cont.
           fit_hb_line_fit_fixed_two_components ex_red_chi2 ex_hb2_no_broad ex_hb2_broad fit_cont),
       find_nii_ha_best_fit = (\<lambda>sii_bestfit fit_cont.
           fit_nii_ha_lines_fit_fixed_two_components ex_red_chi2 ex_ha2_no_broad ex_ha2_broad
             fit_cont) \<rparr>"

definition ex_world_exchange :: collaborators where
  "ex_world_exchange = ex_world \<lparr> find_hb_best_fit := (\<lambda>sii_bestfit fit_cont.
       fit_hb_line_fit_free_two_components ex_red_chi2 ex_hb2_no_broad ex_hb2_broad fit_cont) \<rparr>"

section \<open>The columns of the parameter table\<close>

text \<open>The five columns of a component, and the columns of a complex.\<close>

definition five_keys :: "string \<Rightarrow> string list" where
  "five_keys model = [model @ ''_amplitude'', model @ ''_mean'', model @ ''_std'',
                      model @ ''_sigma'', model @ ''_flux'']"





section \<open>Aggregation over the iterations: \<^verbatim>\<open>emline_params.get_bestfit_parameters\<close>\<close>

text \<open>
  The table of the iterations holds real numbers. The statistics of numpy may be NaN: a
  value of type \<open>npfloat\<close> is a real number or NaN, written \<open>None\<close>.
\<close>

type_synonym npfloat = "real option"

text \<open>
  \<^verbatim>\<open>np.isclose(x, 0.0)\<close> with the default tolerances: \<^verbatim>\<open>|x - 0| <= atol + rtol * |0|\<close>,
  \<^verbatim>\<open>atol = 1e-8\<close>.
\<close>

definition isclose_zero :: "real \<Rightarrow> bool" where
  "isclose_zero x = (\<bar>x\<bar> \<le> 1 / 10 ^ 8)"

text \<open>\<^verbatim>\<open>np.where(~cond, np.nan, arr)\<close>\<close>

definition np_where_not :: "bool list \<Rightarrow> real list \<Rightarrow> npfloat list" where
  "np_where_not cond arr = map (\<lambda>(c, x). if c then Some x else None) (zip cond arr)"

text \<open>
  \<^verbatim>\<open>np.nanmean\<close> and \<^verbatim>\<open>np.nanstd\<close> skip the NaN entries and are NaN when nothing is left;
  the standard deviation is the population one, the root of the mean squared deviation.
\<close>

definition nanmean :: "npfloat list \<Rightarrow> npfloat" where
  "nanmean xs = (let vs = List.map_filter id xs
                 in if vs = [] then None else Some (sum_list vs / real (length vs)))"

definition nanstd :: "npfloat list \<Rightarrow> npfloat" where
  "nanstd xs = (case nanmean xs of None \<Rightarrow> None
     | Some mu \<Rightarrow> map_option sqrt (nanmean (map (map_option (\<lambda>x. (x - mu)\<^sup>2)) xs)))"

definition compute_emline_flux_err :: "real \<Rightarrow> real \<Rightarrow> real \<Rightarrow> real \<Rightarrow> real \<times> real" where
  \<comment> \<open>Modelled from the spec: \<^verbatim>\<open>measure_fits.compute_emline_flux\<close> with errors, the error
      propagated by relative quadrature.\<close>
  "compute_emline_flux_err amp std amp_err std_err =
     (let flux = compute_emline_flux amp std
      in (flux, flux * sqrt ((amp_err / amp)\<^sup>2 + (std_err / std)\<^sup>2)))"

definition lamspace_to_velspace_err :: "real \<Rightarrow> real \<Rightarrow> real \<Rightarrow> real \<Rightarrow> real \<times> real" where
  \<comment> \<open>Modelled from the spec: \<^verbatim>\<open>measure_fits.lamspace_to_velspace\<close> with errors, the relative
      errors of stddev and mean added in quadrature.\<close>
  "lamspace_to_velspace_err del_lam lam_ref del_lam_err lam_ref_err =
     (let vel = lamspace_to_velspace del_lam lam_ref
      in (vel, vel * sqrt ((del_lam_err / del_lam)\<^sup>2 + (lam_ref_err / lam_ref)\<^sup>2)))"

text \<open>
  \<^verbatim>\<open>cond = (amplitude_arr > 0)&(mean_arr > 0)&(std_arr > 0)\<close>, on the three columns of a table.
\<close>

definition all_positive :: "real list \<Rightarrow> real list \<Rightarrow> real list \<Rightarrow> bool list" where
  "all_positive amplitude_arr mean_arr std_arr =
     map (\<lambda>(a, m, s). a > 0 \<and> m > 0 \<and> s > 0) (zip amplitude_arr (zip mean_arr std_arr))"

text \<open>
  The body of the loop for one component: the fourteen values that are stored under the
  keys \<^verbatim>\<open>f'{model}_amplitude'\<close> to \<^verbatim>\<open>f'{model}_sigma_err_fits'\<close>, here under the suffixes.
  The four arguments of a call with errors are NaN together, which makes both results
  NaN.
\<close>

definition aggregate_model :: "params list \<Rightarrow> string \<Rightarrow> npfloat dict option" where
  "aggregate_model table model = do {
     amplitude_arr \<leftarrow> column table (model @ ''_amplitude'');
     mean_arr \<leftarrow> column table (model @ ''_mean'');
     std_arr \<leftarrow> column table (model @ ''_std'');
     flux_arr \<leftarrow> column table (model @ ''_flux'');
     sigma_arr \<leftarrow> column table (model @ ''_sigma'');
     let amp_zero = list_all isclose_zero amplitude_arr;
     let mean_zero = list_all isclose_zero mean_arr;
     let std_zero = list_all isclose_zero std_arr;
     let allzero = (amp_zero \<or> mean_zero \<or> std_zero);
     if allzero then
       Some [(''_amplitude'', Some 0), (''_amplitude_err'', Some 0), (''_mean'', Some 0),
             (''_mean_err'', Some 0), (''_std'', Some 0), (''_std_err'', Some 0),
             (''_sigma'', Some 0), (''_sigma_err'', Some 0), (''_flux'', Some 0),
             (''_flux_err'', Some 0), (''_flux_fits'', Some 0), (''_flux_err_fits'', Some 0),
             (''_sigma_fits'', Some 0), (''_sigma_err_fits'', Some 0)]
     else do {
       let cond = all_positive amplitude_arr mean_arr std_arr;
       let amp = nanmean (np_where_not cond amplitude_arr);
       let amp_err = nanstd (np_where_not cond amplitude_arr);
       let mean_v = nanmean (np_where_not cond mean_arr);
       let mean_err = nanstd (np_where_not cond mean_arr);
       let var = map (map_option (\<lambda>x. x\<^sup>2)) (np_where_not cond std_arr);
       let std = map_option sqrt (nanmean var);
       let std_err = map_option sqrt (nanstd var);
       let flux_pair = do { a \<leftarrow> amp; s \<leftarrow> std; ae \<leftarrow> amp_err; se \<leftarrow> std_err;
                            Some (compute_emline_flux_err a s ae se) };
       let sigma_pair = do { s \<leftarrow> std; m \<leftarrow> mean_v; se \<leftarrow> std_err; me \<leftarrow> mean_err;
                             Some (lamspace_to_velspace_err s m se me) };
       let flux_fits = nanmean (np_where_not cond flux_arr);
       let flux_err_fits = nanstd (np_where_not cond flux_arr);
       let sigma_fits = nanmean (np_where_not cond sigma_arr);
       let sigma_err_fits = nanstd (np_where_not cond sigma_arr);
       Some [(''_amplitude'', amp), (''_amplitude_err'', amp_err), (''_mean'', mean_v),
             (''_mean_err'', mean_err), (''_std'', std), (''_std_err'', std_err),
             (''_sigma'', map_option fst sigma_pair), (''_sigma_err'', map_option snd sigma_pair),
             (''_flux'', map_option fst flux_pair), (''_flux_err'', map_option snd flux_pair),
             (''_flux_fits'', flux_fits), (''_flux_err_fits'', flux_err_fits),
             (''_sigma_fits'', sigma_fits), (''_sigma_err_fits'', sigma_err_fits)] } }"

text \<open>The continuum of the complex, computed in every round of the loop.\<close>

definition aggregate_continuum :: "params list \<Rightarrow> string \<Rightarrow> (npfloat \<times> npfloat) option" where
  "aggregate_continuum table emline = do {
     cont_col \<leftarrow> column table (emline @ ''_continuum'');
     if list_all isclose_zero cont_col then Some (Some 0, Some 0)
     else do {
       let masked = np_where_not (map (\<lambda>x. \<not> isclose_zero x) cont_col) cont_col;
       Some (nanmean masked, nanstd masked) } }"

fun get_bestfit_parameters_loop ::
    "params list \<Rightarrow> string list \<Rightarrow> string \<Rightarrow> npfloat dict \<Rightarrow> npfloat dict option" where
  "get_bestfit_parameters_loop table [] emline params = Some params"
| "get_bestfit_parameters_loop table (model # models) emline params = do {
     values \<leftarrow> aggregate_model table model;
     let params = fold (\<lambda>(suffix, v) d. dict_set d (model @ suffix) v) values params;
     (cont, cont_err) \<leftarrow> aggregate_continuum table emline;
     let params = dict_set params (emline @ ''_continuum'') cont;
     let params = dict_set params (emline @ ''_continuum_err'') cont_err;
     get_bestfit_parameters_loop table models emline params }"

definition get_bestfit_parameters ::
    "params list \<Rightarrow> string list \<Rightarrow> string \<Rightarrow> npfloat dict option" where
  "get_bestfit_parameters table models emline = get_bestfit_parameters_loop table models emline []"

subsection \<open>The statistics in words\<close>

definition value_of :: "params \<Rightarrow> string \<Rightarrow> real" where
  "value_of row k = (case dict_get row k of Some x \<Rightarrow> x | None \<Rightarrow> 0)"

text \<open>The iterations in which amplitude, mean and stddev of a component are all positive.\<close>

definition positive_rows :: "params list \<Rightarrow> string \<Rightarrow> params list" where
  "positive_rows table model =
     filter (\<lambda>row. value_of row (model @ ''_amplitude'') > 0
                 \<and> value_of row (model @ ''_mean'') > 0
                 \<and> value_of row (model @ ''_std'') > 0) table"

text \<open>The guard of the code: one of the three columns is close to zero in every iteration.\<close>

definition a_column_all_zero :: "params list \<Rightarrow> string \<Rightarrow> bool" where
  "a_column_all_zero table model =
     (list_all (\<lambda>row. isclose_zero (value_of row (model @ ''_amplitude''))) table
      \<or> list_all (\<lambda>row. isclose_zero (value_of row (model @ ''_mean''))) table
      \<or> list_all (\<lambda>row. isclose_zero (value_of row (model @ ''_std''))) table)"

definition average :: "real list \<Rightarrow> real" where
  "average xs = sum_list xs / real (length xs)"

definition deviation :: "real list \<Rightarrow> real" where
  "deviation xs = sqrt (average (map (\<lambda>x. (x - average xs)\<^sup>2) xs))"

definition values_in :: "params list \<Rightarrow> string \<Rightarrow> real list" where
  "values_in rows k = map (\<lambda>row. value_of row k) rows"

text \<open>The fourteen values computed from the rows \<open>rows\<close> alone.\<close>

definition statistics_over :: "params list \<Rightarrow> string \<Rightarrow> npfloat dict" where
  "statistics_over rows model =
     (let amps = values_in rows (model @ ''_amplitude'');
          means = values_in rows (model @ ''_mean'');
          vars = map (\<lambda>x. x\<^sup>2) (values_in rows (model @ ''_std''));
          fluxes = values_in rows (model @ ''_flux'');
          sigmas = values_in rows (model @ ''_sigma'');
          amp = average amps; amp_err = deviation amps;
          mean_v = average means; mean_err = deviation means;
          std = sqrt (average vars); std_err = sqrt (deviation vars);
          flux_pair = compute_emline_flux_err amp std amp_err std_err;
          sigma_pair = lamspace_to_velspace_err std mean_v std_err mean_err
      in [(''_amplitude'', Some amp), (''_amplitude_err'', Some amp_err),
          (''_mean'', Some mean_v), (''_mean_err'', Some mean_err),
          (''_std'', Some std), (''_std_err'', Some std_err),
          (''_sigma'', Some (fst sigma_pair)), (''_sigma_err'', Some (snd sigma_pair)),
          (''_flux'', Some (fst flux_pair)), (''_flux_err'', Some (snd flux_pair)),
          (''_flux_fits'', Some (average fluxes)), (''_flux_err_fits'', Some (deviation fluxes)),
          (''_sigma_fits'', Some (average sigmas)),
          (''_sigma_err_fits'', Some (deviation sigmas))])"

text \<open>The fourteen keys of a component, and the same value under each of them.\<close>

definition statistic_suffixes :: "string list" where
  "statistic_suffixes =
     [''_amplitude'', ''_amplitude_err'', ''_mean'', ''_mean_err'', ''_std'', ''_std_err'',
      ''_sigma'', ''_sigma_err'', ''_flux'', ''_flux_err'', ''_flux_fits'', ''_flux_err_fits'',
      ''_sigma_fits'', ''_sigma_err_fits'']"

definition constant_statistics :: "npfloat \<Rightarrow> npfloat dict" where
  "constant_statistics v = map (\<lambda>suffix. (suffix, v)) statistic_suffixes"

text \<open>
  What the aggregation stores for a component: zero when one of the three columns is
  close to zero throughout, NaN when no iteration has the three values positive, and else
  the statistics over the iterations that have.
\<close>

definition statistics_in_words :: "params list \<Rightarrow> string \<Rightarrow> npfloat dict" where
  "statistics_in_words table model =
     (if a_column_all_zero table model then constant_statistics (Some 0)
      else if positive_rows table model = [] then constant_statistics None
      else statistics_over (positive_rows table model) model)"

text \<open>
  The keys written for the components of a complex are pairwise different and different
  from the two keys of the continuum: no round of the loop overwrites the statistics of
  another component.
\<close>

definition keys_of :: "string \<Rightarrow> string list" where
  "keys_of model = map (\<lambda>suffix. model @ suffix) statistic_suffixes"

definition separate_keys :: "string list \<Rightarrow> string \<Rightarrow> bool" where
  "separate_keys models emline =
     (distinct (concat (map keys_of models))
      \<and> emline @ ''_continuum'' \<notin> set (concat (map keys_of models))
      \<and> emline @ ''_continuum_err'' \<notin> set (concat (map keys_of models)))"

text \<open>The columns that the aggregation of a complex reads.\<close>

definition columns_read :: "string list \<Rightarrow> string \<Rightarrow> string list" where
  "columns_read models emline = concat (map five_keys models) @ [emline @ ''_continuum'']"

text \<open>
  A per-iteration row of a component as \<^verbatim>\<open>get_parameters\<close> writes it, with the continuum of
  the complex.
\<close>

definition component_row :: "string \<Rightarrow> real \<Rightarrow> real \<Rightarrow> real \<Rightarrow> string \<Rightarrow> real \<Rightarrow> params" where
  "component_row model amp mean_v std emline cont =
     dict_set (set_five [] model amp mean_v std (lamspace_to_velspace std mean_v)
                 (compute_emline_flux amp std)) (emline @ ''_continuum'') cont"

text \<open>
  Tables used as concrete inputs: a component absent in one iteration and fitted with a
  negative amplitude in the other; two iterations with amplitudes of 4e-9 and 6e-9; a
  component absent in one iteration and fitted with an amplitude of 2 in the other; three
  identical iterations with an amplitude of 5e-9; and three identical iterations with an
  amplitude of 2.
\<close>

definition ex_degenerate_table :: "params list" where
  "ex_degenerate_table = [component_row ''hb_b'' 0 0 0 ''hb'' 0,
                          component_row ''hb_b'' (-1) 4862.683 1 ''hb'' 0]"

definition ex_faint_table :: "params list" where
  "ex_faint_table = [component_row ''hb_b'' (4 / 10 ^ 9) 4862.683 1 ''hb'' 0,
                     component_row ''hb_b'' (6 / 10 ^ 9) 4862.683 1 ''hb'' 0]"

definition ex_mixed_table :: "params list" where
  "ex_mixed_table = [component_row ''hb_b'' 0 0 0 ''hb'' 0,
                     component_row ''hb_b'' 2 4862.683 3 ''hb'' 0]"



section \<open>Properties of the broad-component selection\<close>

lemma getitem_Nil: "getitem [] n = None"
  by (simp add: getitem_def)

lemma getitem_Cons:
  "getitem (c # cs) n =
     (if name c = n then (if filter (\<lambda>c. name c = n) cs = [] then Some c else None)
      else getitem cs n)"
  by (auto simp: getitem_def split: list.splits)

lemmas eval_defs = sigma_kms_def getitem_def lamspace_to_velspace_def speed_of_light_def
  del_rchi2_ge_20_def ex_red_chi2_def submodel_names_def

text \<open>The common shape of the eight selections, with and without exchange.\<close>

lemma select_shape:
  assumes "(A \<bind> (\<lambda>x. B \<bind> (\<lambda>y. if C x y then Some (g1, r1, F x y, d1)
              else Some (g0, r0, F x y, d0)))) = Some (g, r, f, d)"
  shows "\<exists>x y. A = Some x \<and> B = Some y \<and>
           (if C x y then g = g1 \<and> r = r1 \<and> d = d1 else g = g0 \<and> r = r0 \<and> d = d0)"
  using assms by (auto split: Option.bind_splits if_splits)

lemma select_shape_exchange:
  assumes "(E \<bind> (\<lambda>(fl, gb). A gb \<bind> (\<lambda>x. B gb \<bind> (\<lambda>y.
              if C x y then Some (gb, r1, F fl x y, d1)
              else Some (g0, r0, F fl x y, d0))))) = Some (g, r, f, d)"
  shows "\<exists>fl gb x y. E = Some (fl, gb) \<and> A gb = Some x \<and> B gb = Some y \<and>
           (if C x y then g = gb \<and> r = r1 \<and> d = d1 else g = g0 \<and> r = r0 \<and> d = d0)"
  using assms by (auto split: Option.bind_splits if_splits)

lemma select_shape_flags:
  assumes "(E \<bind> (\<lambda>(fl, gb). A gb \<bind> (\<lambda>x. B gb \<bind> (\<lambda>y.
              if C x y then Some (gb, r1, F fl x y, d1)
              else Some (g0, r0, F fl x y, d0))))) = Some (g, r, f, d)"
  shows "\<exists>fl gb x y. E = Some (fl, gb) \<and> A gb = Some x \<and> B gb = Some y \<and> f = F fl x y
           \<and> (d1 \<noteq> d0 \<longrightarrow> d = d1 \<longrightarrow> g = gb)"
proof -
  from assms obtain fl gb x y where 1: "E = Some (fl, gb)" "A gb = Some x" "B gb = Some y"
    by (auto split: Option.bind_splits)
  show ?thesis
  proof (cases "C x y")
    case True
    with assms 1 show ?thesis by simp
  next
    case False
    with assms 1 show ?thesis by simp
  qed
qed

lemma entry_selects:
  assumes "entry e red_chi2 gfit_no_broad gfit_broad fit_cont
             = Some (gfit, rchi2, flag_bits, n_dof)"
  shows "\<exists>cand sig_n sig_b.
           candidate e gfit_broad = Some cand \<and>
           sigma_kms cand (narrow e) = Some sig_n \<and> sigma_kms cand (broad e) = Some sig_b \<and>
           (if broad_accepted e (red_chi2 gfit_no_broad (dof e False fit_cont))
                 (red_chi2 gfit_broad (dof e True fit_cont)) sig_n sig_b
            then gfit = cand \<and> rchi2 = red_chi2 gfit_broad (dof e True fit_cont)
                 \<and> n_dof = dof e True fit_cont
            else gfit = gfit_no_broad \<and> rchi2 = red_chi2 gfit_no_broad (dof e False fit_cont)
                 \<and> n_dof = dof e False fit_cont)"
proof (cases e)
  case Hb_free_one
  show ?thesis
    using select_shape [OF assms [unfolded Hb_free_one entry.simps
          fit_hb_line_fit_free_one_component_def Let_def]] unfolding Hb_free_one
    by (auto simp: candidate_def broad_accepted_def narrow_def broad_def dof_def
        split: if_splits)
next
  case Hb_free_two
  show ?thesis
    using select_shape_exchange [OF assms [unfolded Hb_free_two entry.simps
          fit_hb_line_fit_free_two_components_def Let_def]] unfolding Hb_free_two
    by (auto simp: candidate_def broad_accepted_def narrow_def broad_def dof_def
        split: if_splits)
next
  case Hb_fixed_one
  show ?thesis
    using select_shape [OF assms [unfolded Hb_fixed_one entry.simps
          fit_hb_line_fit_fixed_one_component_def Let_def]] unfolding Hb_fixed_one
    by (auto simp: candidate_def broad_accepted_def narrow_def broad_def dof_def
        split: if_splits)
next
  case Hb_fixed_two
  show ?thesis
    using select_shape [OF assms [unfolded Hb_fixed_two entry.simps
          fit_hb_line_fit_fixed_two_components_def Let_def]] unfolding Hb_fixed_two
    by (auto simp: candidate_def broad_accepted_def narrow_def broad_def dof_def
        split: if_splits)
next
  case Ha_free_one
  show ?thesis
    using select_shape [OF assms [unfolded Ha_free_one entry.simps
          fit_nii_ha_lines_fit_free_ha_one_component_def Let_def]] unfolding Ha_free_one
    by (auto simp: candidate_def broad_accepted_def narrow_def broad_def dof_def
        split: if_splits)
next
  case Ha_free_two
  show ?thesis
    using select_shape_exchange [OF assms [unfolded Ha_free_two entry.simps
          fit_nii_ha_lines_fit_free_ha_two_components_def Let_def]] unfolding Ha_free_two
    by (auto simp: candidate_def broad_accepted_def narrow_def broad_def dof_def
        split: if_splits)
next
  case Ha_fixed_one
  show ?thesis
    using select_shape [OF assms [unfolded Ha_fixed_one entry.simps
          fit_nii_ha_lines_fit_fixed_one_component_def Let_def]] unfolding Ha_fixed_one
    by (auto simp: candidate_def broad_accepted_def narrow_def broad_def dof_def
        split: if_splits)
next
  case Ha_fixed_two
  show ?thesis
    using select_shape [OF assms [unfolded Ha_fixed_two entry.simps
          fit_nii_ha_lines_fit_fixed_two_components_def Let_def]] unfolding Ha_fixed_two
    by (auto simp: candidate_def broad_accepted_def narrow_def broad_def dof_def
        split: if_splits)
qed

text \<open>
  The selection returns whenever the examined with-broad model has a narrow and a broad
  Gaussian of the expected names.
\<close>

lemma returns_shape:
  assumes "A = Some x" and "B = Some y"
  shows "\<exists>r. (A \<bind> (\<lambda>x. B \<bind> (\<lambda>y. if C x y then Some (P x y) else Some (Q x y)))) = Some r"
  using assms by simp

lemma returns_shape_exchange:
  assumes "E = Some (fl, gb)" and "A gb = Some x" and "B gb = Some y"
  shows "\<exists>r. (E \<bind> (\<lambda>(fl, gb). A gb \<bind> (\<lambda>x. B gb \<bind> (\<lambda>y.
              if C x y then Some (P fl gb x y) else Some (Q fl gb x y))))) = Some r"
  using assms by simp


text \<open>
  The selection returns whenever the examined with-broad model has a narrow and a broad
  Gaussian of the expected names.
\<close>

lemma Some_if_ex: "\<exists>r. (if c then Some a else Some b) = Some r"
  by simp

lemma entry_returns:
  assumes "candidate e gfit_broad = Some cand"
    and "sigma_kms cand (narrow e) = Some sig_n" and "sigma_kms cand (broad e) = Some sig_b"
  shows "\<exists>r. entry e red_chi2 gfit_no_broad gfit_broad fit_cont = Some r"
proof (cases e)
  case Hb_free_one
  with assms have s: "sigma_kms gfit_broad ''hb_n'' = Some sig_n"
      "sigma_kms gfit_broad ''hb_b'' = Some sig_b"
    by (simp_all add: candidate_def narrow_def broad_def)
  show ?thesis
    unfolding Hb_free_one entry.simps fit_hb_line_fit_free_one_component_def Let_def s Option.bind.simps
    by (rule Some_if_ex)
next
  case Hb_free_two
  with assms obtain fl where x: "hb_exchange gfit_broad = Some (fl, cand)"
    by (auto simp: candidate_def)
  from assms Hb_free_two have s: "sigma_kms cand ''hb_n'' = Some sig_n"
      "sigma_kms cand ''hb_b'' = Some sig_b"
    by (simp_all add: narrow_def broad_def)
  show ?thesis
    unfolding Hb_free_two entry.simps fit_hb_line_fit_free_two_components_def Let_def x s Option.bind.simps prod.case
    by (rule Some_if_ex)
next
  case Hb_fixed_one
  with assms have s: "sigma_kms gfit_broad ''hb_n'' = Some sig_n"
      "sigma_kms gfit_broad ''hb_b'' = Some sig_b"
    by (simp_all add: candidate_def narrow_def broad_def)
  show ?thesis
    unfolding Hb_fixed_one entry.simps fit_hb_line_fit_fixed_one_component_def Let_def s Option.bind.simps
    by (rule Some_if_ex)
next
  case Hb_fixed_two
  with assms have s: "sigma_kms gfit_broad ''hb_n'' = Some sig_n"
      "sigma_kms gfit_broad ''hb_b'' = Some sig_b"
    by (simp_all add: candidate_def narrow_def broad_def)
  show ?thesis
    unfolding Hb_fixed_two entry.simps fit_hb_line_fit_fixed_two_components_def Let_def s Option.bind.simps
    by (rule Some_if_ex)
next
  case Ha_free_one
  with assms have s: "sigma_kms gfit_broad ''ha_n'' = Some sig_n"
      "sigma_kms gfit_broad ''ha_b'' = Some sig_b"
    by (simp_all add: candidate_def narrow_def broad_def)
  show ?thesis
    unfolding Ha_free_one entry.simps fit_nii_ha_lines_fit_free_ha_one_component_def Let_def s Option.bind.simps
    by (rule Some_if_ex)
next
  case Ha_free_two
  with assms obtain fl where x: "ha_exchange gfit_broad = Some (fl, cand)"
    by (auto simp: candidate_def)
  from assms Ha_free_two have s: "sigma_kms cand ''ha_n'' = Some sig_n"
      "sigma_kms cand ''ha_b'' = Some sig_b"
    by (simp_all add: narrow_def broad_def)
  show ?thesis
    unfolding Ha_free_two entry.simps fit_nii_ha_lines_fit_free_ha_two_components_def Let_def x s Option.bind.simps prod.case
    by (rule Some_if_ex)
next
  case Ha_fixed_one
  with assms have s: "sigma_kms gfit_broad ''ha_n'' = Some sig_n"
      "sigma_kms gfit_broad ''ha_b'' = Some sig_b"
    by (simp_all add: candidate_def narrow_def broad_def)
  show ?thesis
    unfolding Ha_fixed_one entry.simps fit_nii_ha_lines_fit_fixed_one_component_def Let_def s Option.bind.simps
    by (rule Some_if_ex)
next
  case Ha_fixed_two
  with assms have s: "sigma_kms gfit_broad ''ha_n'' = Some sig_n"
      "sigma_kms gfit_broad ''ha_b'' = Some sig_b"
    by (simp_all add: candidate_def narrow_def broad_def)
  show ?thesis
    unfolding Ha_fixed_two entry.simps fit_nii_ha_lines_fit_fixed_two_components_def Let_def s Option.bind.simps
    by (rule Some_if_ex)
qed

lemma dof_broad_differs: "dof e True fit_cont \<noteq> dof e False fit_cont"
  by (cases e) (simp_all add: dof_def)

text \<open>The improvement test is the 20 percent rule whenever the denominator is not zero.\<close>

lemma del_rchi2_ge_20_iff:
  assumes "rchi2_no_broad \<noteq> 0"
  shows "del_rchi2_ge_20 rchi2_no_broad rchi2_broad
           \<longleftrightarrow> (rchi2_no_broad - rchi2_broad) / rchi2_no_broad \<ge> 0.20"
proof -
  define q where "q = (rchi2_no_broad - rchi2_broad) / rchi2_no_broad"
  have "q * 100 \<ge> 20 \<longleftrightarrow> q \<ge> 0.20" by auto
  with assms show ?thesis by (simp only: del_rchi2_ge_20_def q_def if_False)
qed


subsection \<open>The exchange of outflow and broad component\<close>

lemma sigma_kms_Some:
  assumes "sigma_kms g n = Some v"
  obtains n' a m s where "getitem g n = Some (Gaussian1D n' a m s)"
    and "v = lamspace_to_velspace s m"
  using assms
  by (auto simp: sigma_kms_def split: Option.bind_splits elim!: stddev.elims mean.elims)

lemma hb_exchange_cases:
  assumes "hb_exchange gfit_broad = Some (fl, gb)"
  shows "\<exists>sb so. sigma_kms gfit_broad ''hb_b'' = Some sb
           \<and> sigma_kms gfit_broad ''hb_out'' = Some so
           \<and> sigma_kms gb ''hb_b'' = Some (max sb so) \<and> sigma_kms gb ''hb_out'' = Some (min sb so)
           \<and> (fl = (if sb < so then [6] else []))"
proof -
  from assms obtain sb so where s: "sigma_kms gfit_broad ''hb_b'' = Some sb"
      "sigma_kms gfit_broad ''hb_out'' = Some so"
    by (auto simp: hb_exchange_def split: Option.bind_splits)
  show ?thesis
  proof (cases "sb < so")
    case False
    with assms s show ?thesis by (simp add: hb_exchange_def max_def min_def)
  next
    case True
    from s(1) obtain nb ab mb stb where
      b: "getitem gfit_broad ''hb_b'' = Some (Gaussian1D nb ab mb stb)"
         "sb = lamspace_to_velspace stb mb"
      by (rule sigma_kms_Some)
    from s(2) obtain no ao mo sto where
      out: "getitem gfit_broad ''hb_out'' = Some (Gaussian1D no ao mo sto)"
         "so = lamspace_to_velspace sto mo"
      by (rule sigma_kms_Some)
    from assms s True b out show ?thesis
      by (auto simp: hb_exchange_def sigma_kms_def getitem_Cons getitem_Nil max_def min_def
          split: Option.bind_splits elim!: gaussian_named.elims)
  qed
qed

lemma ha_exchange_cases:
  assumes "ha_exchange gfit_broad = Some (fl, gb)"
  shows "\<exists>sb so. sigma_kms gfit_broad ''ha_b'' = Some sb
           \<and> sigma_kms gfit_broad ''ha_out'' = Some so
           \<and> sigma_kms gb ''ha_b'' = Some (max sb so) \<and> sigma_kms gb ''ha_out'' = Some (min sb so)
           \<and> (fl = (if sb < so then [6] else []))"
proof -
  from assms obtain sb so where s: "sigma_kms gfit_broad ''ha_b'' = Some sb"
      "sigma_kms gfit_broad ''ha_out'' = Some so"
    by (auto simp: ha_exchange_def split: Option.bind_splits)
  show ?thesis
  proof (cases "sb < so")
    case False
    with assms s show ?thesis by (simp add: ha_exchange_def max_def min_def)
  next
    case True
    from s(1) obtain nb ab mb stb where
      b: "getitem gfit_broad ''ha_b'' = Some (Gaussian1D nb ab mb stb)"
         "sb = lamspace_to_velspace stb mb"
      by (rule sigma_kms_Some)
    from s(2) obtain no ao mo sto where
      out: "getitem gfit_broad ''ha_out'' = Some (Gaussian1D no ao mo sto)"
         "so = lamspace_to_velspace sto mo"
      by (rule sigma_kms_Some)
    from assms s True b out show ?thesis
      by (auto simp: ha_exchange_def sigma_kms_def getitem_Cons getitem_Nil max_def min_def
          split: Option.bind_splits elim!: gaussian_named.elims)
  qed
qed

lemma flag_6_iff:
  "6 \<in> set (sort (fl @ [2::nat] @ (if a then [4] else []) @ (if b then [5] else [])
       @ (if c then [k] else []))) \<longleftrightarrow> 6 \<in> set fl \<or> (c \<and> k = 6)"
  by auto

lemma exchanging_entry:
  assumes "exchanging e"
    and "entry e red_chi2 gfit_no_broad gfit_broad fit_cont
           = Some (gfit, rchi2, flag_bits, n_dof)"
  shows "\<exists>sb so cand.
           sigma_kms gfit_broad (broad e) = Some sb \<and>
           sigma_kms gfit_broad (outflow e) = Some so \<and>
           (6 \<in> set flag_bits \<longleftrightarrow> sb < so) \<and>
           candidate e gfit_broad = Some cand \<and>
           sigma_kms cand (broad e) = Some (max sb so) \<and>
           sigma_kms cand (outflow e) = Some (min sb so) \<and>
           (n_dof = dof e True fit_cont \<longrightarrow> gfit = cand)"
proof -
  from assms(1) consider "e = Hb_free_two" | "e = Ha_free_two"
    by (cases e) simp_all
  then show ?thesis
  proof cases
    case 1
    from select_shape_flags [OF assms(2) [unfolded 1 entry.simps
          fit_hb_line_fit_free_two_components_def Let_def]]
    obtain fl gb where ex: "hb_exchange gfit_broad = Some (fl, gb)"
      and fl: "6 \<in> set flag_bits \<longleftrightarrow> 6 \<in> set fl"
      and g: "n_dof = (if fit_cont then 10 else 9) \<longrightarrow> gfit = gb"
      unfolding flag_6_iff by (cases fit_cont) auto
    from g have g': "n_dof = dof Hb_free_two True fit_cont \<longrightarrow> gfit = gb"
      by (simp add: dof_def)
    from hb_exchange_cases [OF ex] ex fl g' show ?thesis
      unfolding 1 by (auto simp: candidate_def broad_def outflow_def)
  next
    case 2
    from select_shape_flags [OF assms(2) [unfolded 2 entry.simps
          fit_nii_ha_lines_fit_free_ha_two_components_def Let_def]]
    obtain fl gb where ex: "ha_exchange gfit_broad = Some (fl, gb)"
      and fl: "6 \<in> set flag_bits \<longleftrightarrow> 6 \<in> set fl"
      and g: "n_dof = (if fit_cont then 14 else 13) \<longrightarrow> gfit = gb"
      unfolding flag_6_iff by (cases fit_cont) auto
    from g have g': "n_dof = dof Ha_free_two True fit_cont \<longrightarrow> gfit = gb"
      by (simp add: dof_def)
    from ha_exchange_cases [OF ex] ex fl g' show ?thesis
      unfolding 2 by (auto simp: candidate_def broad_def outflow_def)
  qed
qed


subsection \<open>Evaluation on the concrete fits\<close>

lemma ex_hb_fixed_one:
  "fit_hb_line_fit_fixed_one_component ex_red_chi2 ex_hb_no_broad ex_hb_broad True
     = Some (ex_hb_broad, 1, [1, 4, 9], 6)"
  by (simp add: fit_hb_line_fit_fixed_one_component_def ex_hb_no_broad_def ex_hb_broad_def
      eval_defs)

lemma ex_hb_free_one:
  "fit_hb_line_fit_free_one_component ex_red_chi2 ex_hb_no_broad ex_hb_broad True
     = Some (ex_hb_no_broad, 2, [0, 4, 9], 4)"
  by (simp add: fit_hb_line_fit_free_one_component_def ex_hb_no_broad_def ex_hb_broad_def
      eval_defs)

lemma ex_hb_fixed_two:
  "fit_hb_line_fit_fixed_two_components ex_red_chi2 ex_hb2_no_broad ex_hb2_broad True
     = Some (ex_hb2_broad, 1, [3, 4], 8)"
  by (simp add: fit_hb_line_fit_fixed_two_components_def ex_hb2_no_broad_def ex_hb2_broad_def
      eval_defs)

lemma ex_hb_free_two:
  "fit_hb_line_fit_free_two_components ex_red_chi2 ex_hb2_no_broad ex_hb2_broad True
     = Some (ex_hb2_exchanged, 1, [2, 4, 6], 10)"
  by (simp add: fit_hb_line_fit_free_two_components_def hb_exchange_def ex_hb2_no_broad_def
      ex_hb2_broad_def ex_hb2_exchanged_def eval_defs)

lemma ex_ha_free_two:
  "fit_nii_ha_lines_fit_free_ha_two_components ex_red_chi2 ex_ha2_no_broad ex_ha2_broad True
     = Some (ex_ha2_exchanged, 1, [2, 4, 6], 14)"
  by (simp add: fit_nii_ha_lines_fit_free_ha_two_components_def ha_exchange_def
      ex_ha2_no_broad_def ex_ha2_broad_def ex_ha2_exchanged_def eval_defs)

lemma ex_ha_free_one:
  "fit_nii_ha_lines_fit_free_ha_one_component ex_red_chi2 ex_ha_no_broad ex_ha_broad True
     = Some (ex_ha_no_broad, 2, [0, 4], 6)"
  by (simp add: fit_nii_ha_lines_fit_free_ha_one_component_def ex_ha_no_broad_def
      ex_ha_broad_def eval_defs)

lemma ex_ha2_candidate: "candidate Ha_free_two ex_ha2_broad = Some ex_ha2_exchanged"
  by (simp add: candidate_def ha_exchange_def ex_ha2_no_broad_def ex_ha2_broad_def
      ex_ha2_exchanged_def eval_defs)


subsection \<open>The claims\<close>

text \<open>
  C1, as the code has it. Each of the eight entry points, with or without continuum,
  returns the with-broad model exactly when the acceptance rule \<open>broad_accepted\<close> holds of
  the with-broad model it examines: the reduced chi-square improves by at least 20
  percent, the broad component is wider than the narrow one, the broad H-alpha component
  has a FWHM of at least 300 km/s, and, in the four free-width entry points only, the
  narrow component has at least 40 km/s. In every other case it returns the fit without
  broad component. The four fixed-width entry points do not test the narrow width.
\<close>

theorem broad_component_selection:
  assumes "entry e red_chi2 gfit_no_broad gfit_broad fit_cont
             = Some (gfit, rchi2, flag_bits, n_dof)"
  shows "\<exists>cand sig_n sig_b.
           candidate e gfit_broad = Some cand \<and>
           sigma_kms cand (narrow e) = Some sig_n \<and> sigma_kms cand (broad e) = Some sig_b \<and>
           (n_dof = dof e True fit_cont \<longleftrightarrow>
              broad_accepted e (red_chi2 gfit_no_broad (dof e False fit_cont))
                (red_chi2 gfit_broad (dof e True fit_cont)) sig_n sig_b) \<and>
           (if broad_accepted e (red_chi2 gfit_no_broad (dof e False fit_cont))
                 (red_chi2 gfit_broad (dof e True fit_cont)) sig_n sig_b
            then gfit = cand \<and> rchi2 = red_chi2 gfit_broad (dof e True fit_cont)
                 \<and> n_dof = dof e True fit_cont
            else gfit = gfit_no_broad \<and> rchi2 = red_chi2 gfit_no_broad (dof e False fit_cont)
                 \<and> n_dof = dof e False fit_cont)"
proof -
  from entry_selects [OF assms] obtain cand sig_n sig_b where
    c: "candidate e gfit_broad = Some cand" "sigma_kms cand (narrow e) = Some sig_n"
       "sigma_kms cand (broad e) = Some sig_b"
    and sel: "if broad_accepted e (red_chi2 gfit_no_broad (dof e False fit_cont))
                 (red_chi2 gfit_broad (dof e True fit_cont)) sig_n sig_b
            then gfit = cand \<and> rchi2 = red_chi2 gfit_broad (dof e True fit_cont)
                 \<and> n_dof = dof e True fit_cont
            else gfit = gfit_no_broad \<and> rchi2 = red_chi2 gfit_no_broad (dof e False fit_cont)
                 \<and> n_dof = dof e False fit_cont"
    by blast
  from sel have "n_dof = dof e True fit_cont \<longleftrightarrow>
      broad_accepted e (red_chi2 gfit_no_broad (dof e False fit_cont))
        (red_chi2 gfit_broad (dof e True fit_cont)) sig_n sig_b"
    using dof_broad_differs [of e fit_cont] by (auto split: if_splits)
  with c sel show ?thesis by blast
qed

theorem broad_component_selection_witness:
  "entry Ha_free_two ex_red_chi2 ex_ha2_no_broad ex_ha2_broad True
     = Some (ex_ha2_exchanged, 1, [2, 4, 6], 14)
   \<and> (\<exists>cand sig_n sig_b.
           candidate Ha_free_two ex_ha2_broad = Some cand \<and>
           sigma_kms cand (narrow Ha_free_two) = Some sig_n \<and>
           sigma_kms cand (broad Ha_free_two) = Some sig_b \<and>
           (14 = dof Ha_free_two True True \<longleftrightarrow>
              broad_accepted Ha_free_two (ex_red_chi2 ex_ha2_no_broad (dof Ha_free_two False True))
                (ex_red_chi2 ex_ha2_broad (dof Ha_free_two True True)) sig_n sig_b) \<and>
           (if broad_accepted Ha_free_two
                 (ex_red_chi2 ex_ha2_no_broad (dof Ha_free_two False True))
                 (ex_red_chi2 ex_ha2_broad (dof Ha_free_two True True)) sig_n sig_b
            then ex_ha2_exchanged = cand
                 \<and> 1 = ex_red_chi2 ex_ha2_broad (dof Ha_free_two True True)
                 \<and> 14 = dof Ha_free_two True True
            else ex_ha2_exchanged = ex_ha2_no_broad
                 \<and> 1 = ex_red_chi2 ex_ha2_no_broad (dof Ha_free_two False True)
                 \<and> 14 = dof Ha_free_two False True))"
proof -
  have h: "entry Ha_free_two ex_red_chi2 ex_ha2_no_broad ex_ha2_broad True
             = Some (ex_ha2_exchanged, 1, [2, 4, 6], 14)"
    by (simp add: ex_ha_free_two)
  from h broad_component_selection [OF h] show ?thesis by (rule conjI)
qed

text \<open>
  C1 as stated fails: the fixed-width one-component H-beta entry point returns the
  with-broad model (six degrees of freedom) for a narrow component of 37 km/s.
\<close>

theorem broad_selection_narrow_floor_counterexample:
  "fit_hb_line_fit_fixed_one_component ex_red_chi2 ex_hb_no_broad ex_hb_broad True
     = Some (ex_hb_broad, 1, [1, 4, 9], 6)
   \<and> sigma_kms ex_hb_broad ''hb_n'' = Some (lamspace_to_velspace 0.6 4862.683)
   \<and> lamspace_to_velspace 0.6 4862.683 < 40"
  by (simp add: ex_hb_fixed_one) (simp add: ex_hb_broad_def eval_defs)

text \<open>
  C2, as the code has it. In the two free-width two-component entry points
  (\<^verbatim>\<open>fit_hb_line.fit_free_two_components\<close>, \<^verbatim>\<open>fit_nii_ha_lines.fit_free_ha_two_components\<close>)
  flag bit 6 is recorded exactly when the fitted broad component is narrower than the
  fitted outflow component; the with-broad model that the selection examines then carries
  the wider of the two under the name of the broad and the narrower under the name of the
  outflow component; and a returned with-broad model is this model, so that in it the
  broad component is at least as wide as the outflow component. The fixed-width
  two-component entry points exchange nothing.
\<close>

theorem exchange_before_selection:
  assumes "exchanging e"
    and "entry e red_chi2 gfit_no_broad gfit_broad fit_cont
           = Some (gfit, rchi2, flag_bits, n_dof)"
  shows "\<exists>sb so. sigma_kms gfit_broad (broad e) = Some sb \<and>
           sigma_kms gfit_broad (outflow e) = Some so \<and>
           (6 \<in> set flag_bits \<longleftrightarrow> sb < so) \<and>
           (\<exists>cand. candidate e gfit_broad = Some cand \<and>
              sigma_kms cand (broad e) = Some (max sb so) \<and>
              sigma_kms cand (outflow e) = Some (min sb so)) \<and>
           (n_dof = dof e True fit_cont \<longrightarrow>
              sigma_kms gfit (broad e) = Some (max sb so) \<and>
              sigma_kms gfit (outflow e) = Some (min sb so) \<and> min sb so \<le> max sb so)"
  using exchanging_entry [OF assms] by auto

theorem exchange_before_selection_witness:
  "exchanging Hb_free_two
   \<and> entry Hb_free_two ex_red_chi2 ex_hb2_no_broad ex_hb2_broad True
       = Some (ex_hb2_exchanged, 1, [2, 4, 6], 10)
   \<and> (\<exists>sb so. sigma_kms ex_hb2_broad (broad Hb_free_two) = Some sb \<and>
           sigma_kms ex_hb2_broad (outflow Hb_free_two) = Some so \<and>
           (6 \<in> set [2, 4, 6::nat] \<longleftrightarrow> sb < so) \<and>
           (\<exists>cand. candidate Hb_free_two ex_hb2_broad = Some cand \<and>
              sigma_kms cand (broad Hb_free_two) = Some (max sb so) \<and>
              sigma_kms cand (outflow Hb_free_two) = Some (min sb so)) \<and>
           (10 = dof Hb_free_two True True \<longrightarrow>
              sigma_kms ex_hb2_exchanged (broad Hb_free_two) = Some (max sb so) \<and>
              sigma_kms ex_hb2_exchanged (outflow Hb_free_two) = Some (min sb so) \<and>
              min sb so \<le> max sb so))"
proof -
  have e: "exchanging Hb_free_two" by simp
  have h: "entry Hb_free_two ex_red_chi2 ex_hb2_no_broad ex_hb2_broad True
             = Some (ex_hb2_exchanged, 1, [2, 4, 6], 10)"
    by (simp add: ex_hb_free_two)
  from e h exchange_before_selection [OF e h] show ?thesis by blast
qed

text \<open>
  C2 as stated fails: the fixed-width two-component H-beta entry point returns the
  with-broad model (eight degrees of freedom) as fitted, with a broad component of
  123 km/s and an outflow component of 247 km/s, and without flag bit 6.
\<close>

theorem fixed_two_components_no_exchange_counterexample:
  "fit_hb_line_fit_fixed_two_components ex_red_chi2 ex_hb2_no_broad ex_hb2_broad True
     = Some (ex_hb2_broad, 1, [3, 4], 8)
   \<and> sigma_kms ex_hb2_broad ''hb_b'' = Some (lamspace_to_velspace 2 4862.683)
   \<and> sigma_kms ex_hb2_broad ''hb_out'' = Some (lamspace_to_velspace 4 4862.683)
   \<and> lamspace_to_velspace 2 4862.683 < lamspace_to_velspace 4 4862.683"
  by (simp add: ex_hb_fixed_two) (simp add: ex_hb2_broad_def eval_defs)

text \<open>
  C3, as the code has it. In each of the four [NII]+H-alpha entry points, when the
  component named \<^verbatim>\<open>ha_b\<close> of the with-broad model that the selection examines (the fitted
  model, and in \<^verbatim>\<open>fit_free_ha_two_components\<close> the model after the exchange of outflow and
  broad component) has a FWHM below 300 km/s, the fit without broad component is
  returned, whatever the two reduced chi-squares are.
\<close>

theorem halpha_fwhm_floor:
  assumes "is_ha e"
    and "entry e red_chi2 gfit_no_broad gfit_broad fit_cont
           = Some (gfit, rchi2, flag_bits, n_dof)"
    and "candidate e gfit_broad = Some cand"
    and "sigma_kms cand ''ha_b'' = Some sig_b"
    and "2.355 * sig_b < 300"
  shows "gfit = gfit_no_broad \<and> rchi2 = red_chi2 gfit_no_broad (dof e False fit_cont)
           \<and> n_dof = dof e False fit_cont"
proof -
  from assms(1) have b: "broad e = ''ha_b''" by (simp add: broad_def)
  from entry_selects [OF assms(2)] assms(3,4) b obtain sig_n where
    sel: "if broad_accepted e (red_chi2 gfit_no_broad (dof e False fit_cont))
                 (red_chi2 gfit_broad (dof e True fit_cont)) sig_n sig_b
            then gfit = cand \<and> rchi2 = red_chi2 gfit_broad (dof e True fit_cont)
                 \<and> n_dof = dof e True fit_cont
            else gfit = gfit_no_broad \<and> rchi2 = red_chi2 gfit_no_broad (dof e False fit_cont)
                 \<and> n_dof = dof e False fit_cont"
    by auto
  from assms(1,5) have "\<not> broad_accepted e (red_chi2 gfit_no_broad (dof e False fit_cont))
                 (red_chi2 gfit_broad (dof e True fit_cont)) sig_n sig_b"
    by (simp add: broad_accepted_def)
  with sel show ?thesis by simp
qed

theorem halpha_fwhm_floor_witness:
  "is_ha Ha_free_one
   \<and> entry Ha_free_one ex_red_chi2 ex_ha_no_broad ex_ha_broad True
       = Some (ex_ha_no_broad, 2, [0, 4], 6)
   \<and> candidate Ha_free_one ex_ha_broad = Some ex_ha_broad
   \<and> sigma_kms ex_ha_broad ''ha_b'' = Some (lamspace_to_velspace 2.2 6564.312)
   \<and> 2.355 * lamspace_to_velspace 2.2 6564.312 < 300
   \<and> ex_ha_no_broad = ex_ha_no_broad
   \<and> 2 = ex_red_chi2 ex_ha_no_broad (dof Ha_free_one False True)
   \<and> 6 = dof Ha_free_one False True"
proof -
  have a: "is_ha Ha_free_one" by simp
  have h: "entry Ha_free_one ex_red_chi2 ex_ha_no_broad ex_ha_broad True
             = Some (ex_ha_no_broad, 2, [0, 4], 6)"
    by (simp add: ex_ha_free_one)
  have c: "candidate Ha_free_one ex_ha_broad = Some ex_ha_broad"
    by (simp add: candidate_def)
  have s: "sigma_kms ex_ha_broad ''ha_b'' = Some (lamspace_to_velspace 2.2 6564.312)"
    by (simp add: ex_ha_broad_def ex_ha_no_broad_def eval_defs)
  have f: "2.355 * lamspace_to_velspace 2.2 6564.312 < 300"
    by (simp add: eval_defs)
  from a h c s f halpha_fwhm_floor [OF a h c s f] show ?thesis by blast
qed

text \<open>
  C3 as stated fails: in \<^verbatim>\<open>fit_free_ha_two_components\<close> the fitted broad H-alpha component
  has a FWHM of 237 km/s, below 300 km/s, and the with-broad model is returned (14 degrees
  of freedom), the fitted outflow component having taken the name of the broad one.
\<close>

theorem halpha_fwhm_floor_counterexample:
  "fit_nii_ha_lines_fit_free_ha_two_components ex_red_chi2 ex_ha2_no_broad ex_ha2_broad True
     = Some (ex_ha2_exchanged, 1, [2, 4, 6], 14)
   \<and> sigma_kms ex_ha2_broad ''ha_b'' = Some (lamspace_to_velspace 2.2 6564.312)
   \<and> 2.355 * lamspace_to_velspace 2.2 6564.312 < 300"
  by (simp add: ex_ha_free_two) (simp add: ex_ha2_broad_def ex_ha2_no_broad_def eval_defs)

section \<open>Properties of the doublet fits\<close>

lemmas tie_defs = tie_mean_sii_1comp_def tie_mean_sii_2comp_def tie_std_sii_def
  tie_mean_sii_out_def tie_std_sii_out_def tie_amp_sii_def
  tie_mean_oiii_def tie_amp_oiii_def tie_std_oiii_def
  tie_mean_oiii_out_def tie_amp_oiii_out_def tie_std_oiii_out_def

lemmas look_defs = update_def getitem_Cons getitem_Nil
  amplitude_of_def mean_of_def mean_difference_def

text \<open>
  The ties applied to any values that the optimizer may choose, with or without the
  continuum in front.
\<close>

lemma oiii_one_ties:
  assumes "g = [Gaussian1D ''oiii4959'' a1 m1 s1,
                Gaussian1D ''oiii5007'' a2 m2 s2]
         \<or> g = Const1D ''oiii_cont'' c # [Gaussian1D ''oiii4959'' a1 m1 s1,
                Gaussian1D ''oiii5007'' a2 m2 s2]"
  shows "\<exists>gfit. apply_ties [(''oiii5007'', Amplitude, tie_amp_oiii),
                 (''oiii5007'', Mean, tie_mean_oiii), (''oiii5007'', Stddev, tie_std_oiii)]
             (map (assign v) g) = Some gfit
           \<and> oiii_pair_tied gfit ''oiii4959'' ''oiii5007''"
  using assms
proof
  assume "g = [Gaussian1D ''oiii4959'' a1 m1 s1,
                Gaussian1D ''oiii5007'' a2 m2 s2]"
  then show ?thesis
    by (simp add: tie_defs look_defs oiii_pair_tied_def)
next
  assume "g = Const1D ''oiii_cont'' c # [Gaussian1D ''oiii4959'' a1 m1 s1,
                Gaussian1D ''oiii5007'' a2 m2 s2]"
  then show ?thesis
    by (simp add: tie_defs look_defs oiii_pair_tied_def)
qed

lemma oiii_two_ties:
  assumes "g = [Gaussian1D ''oiii4959'' a1 m1 s1,
                Gaussian1D ''oiii5007'' a2 m2 s2, Gaussian1D ''oiii4959_out'' a3 m3 s3,
                Gaussian1D ''oiii5007_out'' a4 m4 s4]
         \<or> g = Const1D ''oiii_cont'' c # [Gaussian1D ''oiii4959'' a1 m1 s1,
                Gaussian1D ''oiii5007'' a2 m2 s2, Gaussian1D ''oiii4959_out'' a3 m3 s3,
                Gaussian1D ''oiii5007_out'' a4 m4 s4]"
  shows "\<exists>gfit. apply_ties [(''oiii5007'', Amplitude, tie_amp_oiii),
                 (''oiii5007'', Mean, tie_mean_oiii), (''oiii5007'', Stddev, tie_std_oiii),
                 (''oiii5007_out'', Amplitude, tie_amp_oiii_out),
                 (''oiii5007_out'', Mean, tie_mean_oiii_out),
                 (''oiii5007_out'', Stddev, tie_std_oiii_out)]
             (map (assign v) g) = Some gfit
           \<and> oiii_pair_tied gfit ''oiii4959'' ''oiii5007''
           \<and> oiii_pair_tied gfit ''oiii4959_out'' ''oiii5007_out''"
  using assms
proof
  assume "g = [Gaussian1D ''oiii4959'' a1 m1 s1,
                Gaussian1D ''oiii5007'' a2 m2 s2, Gaussian1D ''oiii4959_out'' a3 m3 s3,
                Gaussian1D ''oiii5007_out'' a4 m4 s4]"
  then show ?thesis
    by (simp add: tie_defs look_defs oiii_pair_tied_def)
next
  assume "g = Const1D ''oiii_cont'' c # [Gaussian1D ''oiii4959'' a1 m1 s1,
                Gaussian1D ''oiii5007'' a2 m2 s2, Gaussian1D ''oiii4959_out'' a3 m3 s3,
                Gaussian1D ''oiii5007_out'' a4 m4 s4]"
  then show ?thesis
    by (simp add: tie_defs look_defs oiii_pair_tied_def)
qed

lemma sii_one_ties:
  assumes "g = [Gaussian1D ''sii6716'' a1 m1 s1,
                Gaussian1D ''sii6731'' a2 m2 s2]
         \<or> g = Const1D ''sii_cont'' c # [Gaussian1D ''sii6716'' a1 m1 s1,
                Gaussian1D ''sii6731'' a2 m2 s2]"
  shows "\<exists>gfit. apply_ties [(''sii6731'', Mean, tie_mean_sii_1comp),
                 (''sii6731'', Stddev, tie_std_sii)]
             (map (assign v) g) = Some gfit
           \<and> mean_difference gfit ''sii6716'' ''sii6731'' = Some 14.329"
  using assms
proof
  assume "g = [Gaussian1D ''sii6716'' a1 m1 s1,
                Gaussian1D ''sii6731'' a2 m2 s2]"
  then show ?thesis
    by (simp add: tie_defs look_defs oiii_pair_tied_def)
next
  assume "g = Const1D ''sii_cont'' c # [Gaussian1D ''sii6716'' a1 m1 s1,
                Gaussian1D ''sii6731'' a2 m2 s2]"
  then show ?thesis
    by (simp add: tie_defs look_defs oiii_pair_tied_def)
qed

lemma sii_two_ties:
  assumes "g = [Gaussian1D ''sii6716'' a1 m1 s1,
                Gaussian1D ''sii6731'' a2 m2 s2, Gaussian1D ''sii6716_out'' a3 m3 s3,
                Gaussian1D ''sii6731_out'' a4 m4 s4]
         \<or> g = Const1D ''sii_cont'' c # [Gaussian1D ''sii6716'' a1 m1 s1,
                Gaussian1D ''sii6731'' a2 m2 s2, Gaussian1D ''sii6716_out'' a3 m3 s3,
                Gaussian1D ''sii6731_out'' a4 m4 s4]"
  shows "\<exists>gfit. apply_ties [(''sii6731'', Mean, tie_mean_sii_2comp),
                 (''sii6731'', Stddev, tie_std_sii),
                 (''sii6731_out'', Amplitude, tie_amp_sii),
                 (''sii6731_out'', Mean, tie_mean_sii_out),
                 (''sii6731_out'', Stddev, tie_std_sii_out)]
             (map (assign v) g) = Some gfit
           \<and> mean_difference gfit ''sii6716'' ''sii6731'' = Some 14.379
           \<and> mean_difference gfit ''sii6716_out'' ''sii6731_out'' = Some 14.379"
  using assms
proof
  assume "g = [Gaussian1D ''sii6716'' a1 m1 s1,
                Gaussian1D ''sii6731'' a2 m2 s2, Gaussian1D ''sii6716_out'' a3 m3 s3,
                Gaussian1D ''sii6731_out'' a4 m4 s4]"
  then show ?thesis
    by (simp add: tie_defs look_defs oiii_pair_tied_def)
next
  assume "g = Const1D ''sii_cont'' c # [Gaussian1D ''sii6716'' a1 m1 s1,
                Gaussian1D ''sii6731'' a2 m2 s2, Gaussian1D ''sii6716_out'' a3 m3 s3,
                Gaussian1D ''sii6731_out'' a4 m4 s4]"
  then show ?thesis
    by (simp add: tie_defs look_defs oiii_pair_tied_def)
qed

text \<open>Each fit applies its ties to the values of the optimizer.\<close>

lemma oiii_one_fit:
  assumes "py_max (window_closed lam_oiii flam_oiii 4959 4961) = Some a1"
    and "py_max (window_closed lam_oiii flam_oiii 5007 5009) = Some a2"
  shows "\<exists>gfit. fit_oiii_lines_fit_one_component opt red_chi2 lam_oiii flam_oiii fit_cont
             = Some (gfit, red_chi2 gfit (if fit_cont then 4 else 3))
           \<and> oiii_pair_tied gfit ''oiii4959'' ''oiii5007''"
proof (cases fit_cont)
  case True
  from oiii_one_ties [OF disjI2 [OF refl]] obtain gfit where
    "LevMarLSQFitter opt [(''oiii5007'', Amplitude, tie_amp_oiii),
        (''oiii5007'', Mean, tie_mean_oiii), (''oiii5007'', Stddev, tie_std_oiii)]
       [Const1D ''oiii_cont'' 0, Gaussian1D ''oiii4959'' a1 4960.295 1,
        Gaussian1D ''oiii5007'' a2 5008.239 1] = Some gfit"
    and "oiii_pair_tied gfit ''oiii4959'' ''oiii5007''"
    unfolding LevMarLSQFitter_def by blast
  with True assms show ?thesis
    by (simp add: fit_oiii_lines_fit_one_component_def Let_def)
next
  case False
  from oiii_one_ties [OF disjI1 [OF refl]] obtain gfit where
    "LevMarLSQFitter opt [(''oiii5007'', Amplitude, tie_amp_oiii),
        (''oiii5007'', Mean, tie_mean_oiii), (''oiii5007'', Stddev, tie_std_oiii)]
       [Gaussian1D ''oiii4959'' a1 4960.295 1,
        Gaussian1D ''oiii5007'' a2 5008.239 1] = Some gfit"
    and "oiii_pair_tied gfit ''oiii4959'' ''oiii5007''"
    unfolding LevMarLSQFitter_def by blast
  with False assms show ?thesis
    by (simp add: fit_oiii_lines_fit_one_component_def Let_def)
qed

lemma oiii_two_fit:
  assumes "py_max (window_closed lam_oiii flam_oiii 4959 4961) = Some a1"
    and "py_max (window_closed lam_oiii flam_oiii 5007 5009) = Some a2"
  shows "\<exists>gfit. fit_oiii_lines_fit_two_components opt red_chi2 lam_oiii flam_oiii fit_cont
             = Some (gfit, red_chi2 gfit (if fit_cont then 7 else 6))
           \<and> oiii_pair_tied gfit ''oiii4959'' ''oiii5007''
           \<and> oiii_pair_tied gfit ''oiii4959_out'' ''oiii5007_out''"
proof (cases fit_cont)
  case True
  from oiii_two_ties [OF disjI2 [OF refl]] obtain gfit where
    "LevMarLSQFitter opt [(''oiii5007'', Amplitude, tie_amp_oiii),
        (''oiii5007'', Mean, tie_mean_oiii), (''oiii5007'', Stddev, tie_std_oiii),
        (''oiii5007_out'', Amplitude, tie_amp_oiii_out),
        (''oiii5007_out'', Mean, tie_mean_oiii_out),
        (''oiii5007_out'', Stddev, tie_std_oiii_out)]
       [Const1D ''oiii_cont'' 0, Gaussian1D ''oiii4959'' (a1 / 2) 4960.295 1,
        Gaussian1D ''oiii5007'' (a2 / 2) 5008.239 1,
        Gaussian1D ''oiii4959_out'' (a1 / 4) 4960.295 6,
        Gaussian1D ''oiii5007_out'' (a2 / 4) 5008.239 6] = Some gfit"
    and "oiii_pair_tied gfit ''oiii4959'' ''oiii5007''"
    and "oiii_pair_tied gfit ''oiii4959_out'' ''oiii5007_out''"
    unfolding LevMarLSQFitter_def by blast
  with True assms show ?thesis
    by (simp add: fit_oiii_lines_fit_two_components_def Let_def)
next
  case False
  from oiii_two_ties [OF disjI1 [OF refl]] obtain gfit where
    "LevMarLSQFitter opt [(''oiii5007'', Amplitude, tie_amp_oiii),
        (''oiii5007'', Mean, tie_mean_oiii), (''oiii5007'', Stddev, tie_std_oiii),
        (''oiii5007_out'', Amplitude, tie_amp_oiii_out),
        (''oiii5007_out'', Mean, tie_mean_oiii_out),
        (''oiii5007_out'', Stddev, tie_std_oiii_out)]
       [Gaussian1D ''oiii4959'' (a1 / 2) 4960.295 1,
        Gaussian1D ''oiii5007'' (a2 / 2) 5008.239 1,
        Gaussian1D ''oiii4959_out'' (a1 / 4) 4960.295 6,
        Gaussian1D ''oiii5007_out'' (a2 / 4) 5008.239 6] = Some gfit"
    and "oiii_pair_tied gfit ''oiii4959'' ''oiii5007''"
    and "oiii_pair_tied gfit ''oiii4959_out'' ''oiii5007_out''"
    unfolding LevMarLSQFitter_def by blast
  with False assms show ?thesis
    by (simp add: fit_oiii_lines_fit_two_components_def Let_def)
qed

lemma sii_one_fit:
  assumes "py_max flam_sii = Some a"
  shows "\<exists>gfit. fit_sii_lines_fit_one_component opt red_chi2 flam_sii fit_cont
             = Some (gfit, red_chi2 gfit (if fit_cont then 5 else 4))
           \<and> mean_difference gfit ''sii6716'' ''sii6731'' = Some 14.329"
proof (cases fit_cont)
  case True
  from sii_one_ties [OF disjI2 [OF refl]] obtain gfit where
    "LevMarLSQFitter opt [(''sii6731'', Mean, tie_mean_sii_1comp),
        (''sii6731'', Stddev, tie_std_sii)]
       [Const1D ''sii_cont'' 0, Gaussian1D ''sii6716'' a 6718.294 2.9,
        Gaussian1D ''sii6731'' a 6732.673 2.9] = Some gfit"
    and "mean_difference gfit ''sii6716'' ''sii6731'' = Some 14.329"
    unfolding LevMarLSQFitter_def by blast
  with True assms show ?thesis
    by (simp add: fit_sii_lines_fit_one_component_def Let_def)
next
  case False
  from sii_one_ties [OF disjI1 [OF refl]] obtain gfit where
    "LevMarLSQFitter opt [(''sii6731'', Mean, tie_mean_sii_1comp),
        (''sii6731'', Stddev, tie_std_sii)]
       [Gaussian1D ''sii6716'' a 6718.294 2.9,
        Gaussian1D ''sii6731'' a 6732.673 2.9] = Some gfit"
    and "mean_difference gfit ''sii6716'' ''sii6731'' = Some 14.329"
    unfolding LevMarLSQFitter_def by blast
  with False assms show ?thesis
    by (simp add: fit_sii_lines_fit_one_component_def Let_def)
qed

lemma sii_two_fit:
  assumes "py_max flam_sii = Some a"
  shows "\<exists>gfit. fit_sii_lines_fit_two_components opt red_chi2 flam_sii fit_cont
             = Some (gfit, red_chi2 gfit (if fit_cont then 8 else 7))
           \<and> mean_difference gfit ''sii6716'' ''sii6731'' = Some 14.379
           \<and> mean_difference gfit ''sii6716_out'' ''sii6731_out'' = Some 14.379"
proof (cases fit_cont)
  case True
  from sii_two_ties [OF disjI2 [OF refl]] obtain gfit where
    "LevMarLSQFitter opt [(''sii6731'', Mean, tie_mean_sii_2comp),
        (''sii6731'', Stddev, tie_std_sii), (''sii6731_out'', Amplitude, tie_amp_sii),
        (''sii6731_out'', Mean, tie_mean_sii_out),
        (''sii6731_out'', Stddev, tie_std_sii_out)]
       [Const1D ''sii_cont'' 0, Gaussian1D ''sii6716'' (a / 3) 6718.294 2.9,
        Gaussian1D ''sii6731'' (a / 3) 6732.673 2.9,
        Gaussian1D ''sii6716_out'' (a / 6) 6718.294 4,
        Gaussian1D ''sii6731_out'' (a / 6) 6732.673 4] = Some gfit"
    and "mean_difference gfit ''sii6716'' ''sii6731'' = Some 14.379"
    and "mean_difference gfit ''sii6716_out'' ''sii6731_out'' = Some 14.379"
    unfolding LevMarLSQFitter_def by blast
  with True assms show ?thesis
    by (simp add: fit_sii_lines_fit_two_components_def Let_def)
next
  case False
  from sii_two_ties [OF disjI1 [OF refl]] obtain gfit where
    "LevMarLSQFitter opt [(''sii6731'', Mean, tie_mean_sii_2comp),
        (''sii6731'', Stddev, tie_std_sii), (''sii6731_out'', Amplitude, tie_amp_sii),
        (''sii6731_out'', Mean, tie_mean_sii_out),
        (''sii6731_out'', Stddev, tie_std_sii_out)]
       [Gaussian1D ''sii6716'' (a / 3) 6718.294 2.9,
        Gaussian1D ''sii6731'' (a / 3) 6732.673 2.9,
        Gaussian1D ''sii6716_out'' (a / 6) 6718.294 4,
        Gaussian1D ''sii6731_out'' (a / 6) 6732.673 4] = Some gfit"
    and "mean_difference gfit ''sii6716'' ''sii6731'' = Some 14.379"
    and "mean_difference gfit ''sii6716_out'' ''sii6731_out'' = Some 14.379"
    unfolding LevMarLSQFitter_def by blast
  with False assms show ?thesis
    by (simp add: fit_sii_lines_fit_two_components_def Let_def)
qed

lemma py_max_None: "py_max xs = None \<longleftrightarrow> xs = []"
  by (simp add: py_max_def split: list.splits)


subsection \<open>Evaluation on the concrete optimizer results\<close>

lemma ex_oiii_one_fit:
  "fit_oiii_lines_fit_one_component ex_opt_oiii ex_chi2 [4960, 5008] [1, 3] True
     = Some (ex_oiii_one, 1)"
  by code_simp

lemma ex_oiii_two_fit:
  "fit_oiii_lines_fit_two_components ex_opt_oiii ex_chi2 [4960, 5008] [1, 3] True
     = Some (ex_oiii_two, 1)"
  by code_simp

lemma ex_sii_one_fit:
  "fit_sii_lines_fit_one_component ex_opt ex_chi2 [1, 2] True = Some (ex_sii_one, 1)"
  by code_simp

lemma ex_sii_two_fit:
  "fit_sii_lines_fit_two_components ex_opt ex_chi2 [1, 2] True = Some (ex_sii_two, 1)"
  by code_simp

subsection \<open>The claims\<close>

text \<open>
  C5. Every [OIII] fit that returns, with one or with two components, returns a model in
  which the amplitude of \<^verbatim>\<open>oiii5007\<close> is 2.98 times the amplitude of \<^verbatim>\<open>oiii4959\<close> and the
  mean of \<^verbatim>\<open>oiii5007\<close> lies 47.934 above the mean of \<^verbatim>\<open>oiii4959\<close>; in the two-component
  fit the outflow pair satisfies the same two relations. The relations hold exactly over
  the real numbers, for whatever values the optimizer chooses.
\<close>

theorem oiii_ties_hold:
  "(fit_oiii_lines_fit_one_component opt red_chi2 lam_oiii flam_oiii fit_cont
      = Some (gfit1, rchi2_1)
    \<longrightarrow> oiii_pair_tied gfit1 ''oiii4959'' ''oiii5007'')
   \<and> (fit_oiii_lines_fit_two_components opt red_chi2 lam_oiii flam_oiii fit_cont
      = Some (gfit2, rchi2_2)
    \<longrightarrow> oiii_pair_tied gfit2 ''oiii4959'' ''oiii5007''
        \<and> oiii_pair_tied gfit2 ''oiii4959_out'' ''oiii5007_out'')"
proof (intro conjI impI)
  assume a: "fit_oiii_lines_fit_one_component opt red_chi2 lam_oiii flam_oiii fit_cont
      = Some (gfit1, rchi2_1)"
  then obtain a1 a2 where "py_max (window_closed lam_oiii flam_oiii 4959 4961) = Some a1"
      "py_max (window_closed lam_oiii flam_oiii 5007 5009) = Some a2"
    by (auto simp: fit_oiii_lines_fit_one_component_def split: Option.bind_splits)
  from oiii_one_fit [OF this, of opt red_chi2 fit_cont] a
  show "oiii_pair_tied gfit1 ''oiii4959'' ''oiii5007''" by auto
next
  assume a: "fit_oiii_lines_fit_two_components opt red_chi2 lam_oiii flam_oiii fit_cont
      = Some (gfit2, rchi2_2)"
  then obtain a1 a2 where "py_max (window_closed lam_oiii flam_oiii 4959 4961) = Some a1"
      "py_max (window_closed lam_oiii flam_oiii 5007 5009) = Some a2"
    by (auto simp: fit_oiii_lines_fit_two_components_def split: Option.bind_splits)
  from oiii_two_fit [OF this, of opt red_chi2 fit_cont] a
  show "oiii_pair_tied gfit2 ''oiii4959'' ''oiii5007''"
    and "oiii_pair_tied gfit2 ''oiii4959_out'' ''oiii5007_out''" by auto
qed

theorem oiii_ties_hold_witness:
  "fit_oiii_lines_fit_one_component ex_opt_oiii ex_chi2 [4960, 5008] [1, 3] True
      = Some (ex_oiii_one, 1)
   \<and> fit_oiii_lines_fit_two_components ex_opt_oiii ex_chi2 [4960, 5008] [1, 3] True
      = Some (ex_oiii_two, 1)
   \<and> oiii_pair_tied ex_oiii_one ''oiii4959'' ''oiii5007''
   \<and> oiii_pair_tied ex_oiii_two ''oiii4959'' ''oiii5007''
   \<and> oiii_pair_tied ex_oiii_two ''oiii4959_out'' ''oiii5007_out''"
  using oiii_ties_hold [of ex_opt_oiii ex_chi2 "[4960, 5008]" "[1, 3]" True ex_oiii_one 1
      ex_oiii_two 1] ex_oiii_one_fit ex_oiii_two_fit
  by simp

text \<open>
  C6 fails on the code. The one-component [SII] fit ties the mean of \<^verbatim>\<open>sii6731\<close> to the
  mean of \<^verbatim>\<open>sii6716\<close> plus 14.329, the two-component fit to the mean plus 14.379, the
  difference of the two initial means 6732.673 and 6718.294. For the same spectrum and
  the same optimizer the two fitted mean differences are 14.329 and 14.379.
\<close>

theorem sii_doublet_offsets_differ:
  "fit_sii_lines_fit_one_component ex_opt ex_chi2 [1, 2] True = Some (ex_sii_one, 1)
   \<and> fit_sii_lines_fit_two_components ex_opt ex_chi2 [1, 2] True = Some (ex_sii_two, 1)
   \<and> mean_difference ex_sii_one ''sii6716'' ''sii6731'' = Some 14.329
   \<and> mean_difference ex_sii_two ''sii6716'' ''sii6731'' = Some 14.379
   \<and> mean_difference ex_sii_one ''sii6716'' ''sii6731''
       \<noteq> mean_difference ex_sii_two ''sii6716'' ''sii6731''"
  by (simp add: ex_sii_one_fit ex_sii_two_fit)
     (simp add: ex_sii_one_def ex_sii_two_def look_defs)

text \<open>The same for every spectrum and every optimizer.\<close>

lemma sii_doublet_offsets:
  assumes "flam_sii \<noteq> []"
  shows "\<exists>g1 r1 g2 r2.
      fit_sii_lines_fit_one_component opt red_chi2 flam_sii fit_cont = Some (g1, r1)
      \<and> fit_sii_lines_fit_two_components opt red_chi2 flam_sii fit_cont = Some (g2, r2)
      \<and> mean_difference g1 ''sii6716'' ''sii6731'' = Some 14.329
      \<and> mean_difference g2 ''sii6716'' ''sii6731'' = Some 14.379"
proof -
  from assms obtain a where a: "py_max flam_sii = Some a"
    using py_max_None [of flam_sii] by (cases "py_max flam_sii") auto
  from sii_one_fit [OF a, of opt red_chi2 fit_cont] sii_two_fit [OF a, of opt red_chi2 fit_cont]
  show ?thesis by blast
qed


section \<open>Degrees of freedom\<close>

lemma sii_one_rchi2:
  assumes "fit_sii_lines_fit_one_component opt red_chi2 flam fit_cont = Some (gfit, rchi2)"
  shows "rchi2 = red_chi2 gfit (if fit_cont then 5 else 4)"
  using assms unfolding fit_sii_lines_fit_one_component_def Let_def
  by (auto split: Option.bind_splits if_splits)

lemma sii_two_rchi2:
  assumes "fit_sii_lines_fit_two_components opt red_chi2 flam fit_cont = Some (gfit, rchi2)"
  shows "rchi2 = red_chi2 gfit (if fit_cont then 8 else 7)"
  using assms unfolding fit_sii_lines_fit_two_components_def Let_def
  by (auto split: Option.bind_splits if_splits)

lemma oiii_one_rchi2:
  assumes "fit_oiii_lines_fit_one_component opt red_chi2 lam flam fit_cont = Some (gfit, rchi2)"
  shows "rchi2 = red_chi2 gfit (if fit_cont then 4 else 3)"
  using assms unfolding fit_oiii_lines_fit_one_component_def Let_def
  by (auto split: Option.bind_splits if_splits)

lemma oiii_two_rchi2:
  assumes "fit_oiii_lines_fit_two_components opt red_chi2 lam flam fit_cont = Some (gfit, rchi2)"
  shows "rchi2 = red_chi2 gfit (if fit_cont then 7 else 6)"
  using assms unfolding fit_oiii_lines_fit_two_components_def Let_def
  by (auto split: Option.bind_splits if_splits)

lemma sii_fit_dof:
  assumes "n_sii \<in> {Some 2, Some 3, Some 4, Some 5}"
    and "sii_fit w n_sii fit_cont = Some (gfit_sii, rchi2_sii, sii_dof)"
  shows "sii_dof = sii_dof_table (two_components n_sii) fit_cont
         \<and> rchi2_sii = sii_chi2 w gfit_sii sii_dof"
proof (cases "two_components n_sii")
  case True
  with assms(2) have "fit_sii_lines_fit_two_components (sii_optimizer w) (sii_chi2 w)
      (sii_flux w) fit_cont = Some (gfit_sii, rchi2_sii)"
    and "sii_dof = (if fit_cont then 8 else 7)"
    by (auto simp: sii_fit_def two_components_def split: Option.bind_splits)
  with True sii_two_rchi2 [OF this(1)] show ?thesis
    by (simp add: sii_dof_table_def)
next
  case False
  with assms(1) have "n_sii = Some 2 \<or> n_sii = Some 3"
    by (auto simp: two_components_def)
  with assms(2) have "fit_sii_lines_fit_one_component (sii_optimizer w) (sii_chi2 w)
      (sii_flux w) fit_cont = Some (gfit_sii, rchi2_sii)"
    and "sii_dof = (if fit_cont then 5 else 4)"
    by (auto simp: sii_fit_def split: Option.bind_splits)
  with False sii_one_rchi2 [OF this(1)] show ?thesis
    by (simp add: sii_dof_table_def)
qed

lemma oiii_fit_dof:
  assumes "n_oiii \<in> {Some 2, Some 3, Some 4, Some 5}"
    and "oiii_fit w n_oiii fit_cont = Some (gfit_oiii, rchi2_oiii, oiii_dof)"
  shows "oiii_dof = oiii_dof_table (two_components n_oiii) fit_cont
         \<and> rchi2_oiii = oiii_chi2 w gfit_oiii oiii_dof"
proof (cases "two_components n_oiii")
  case True
  with assms(2) have "fit_oiii_lines_fit_two_components (oiii_optimizer w) (oiii_chi2 w)
      (oiii_lam w) (oiii_flux w) fit_cont = Some (gfit_oiii, rchi2_oiii)"
    and "oiii_dof = (if fit_cont then 7 else 6)"
    by (auto simp: oiii_fit_def two_components_def split: Option.bind_splits)
  with True oiii_two_rchi2 [OF this(1)] show ?thesis
    by (simp add: oiii_dof_table_def)
next
  case False
  with assms(1) have "n_oiii = Some 2 \<or> n_oiii = Some 3"
    by (auto simp: two_components_def)
  with assms(2) have "fit_oiii_lines_fit_one_component (oiii_optimizer w) (oiii_chi2 w)
      (oiii_lam w) (oiii_flux w) fit_cont = Some (gfit_oiii, rchi2_oiii)"
    and "oiii_dof = (if fit_cont then 4 else 3)"
    by (auto simp: oiii_fit_def split: Option.bind_splits)
  with False oiii_one_rchi2 [OF this(1)] show ?thesis
    by (simp add: oiii_dof_table_def)
qed

lemma ex_sii_fit: "sii_fit ex_world (Some 3) True = Some (ex_sii_one, 1, 5)"
  by code_simp

lemma ex_sii_fit_two: "sii_fit ex_world (Some 5) True = Some (ex_sii_two, 1, 8)"
  by code_simp

lemma ex_oiii_fit: "oiii_fit ex_world (Some 3) True = Some (ex_oiii_one, 1, 4)"
  by code_simp

text \<open>
  C4. The degrees of freedom returned with a fit are read off a table by architecture and
  continuum flag alone: for the [SII] and [OIII] fits of an iteration with a given number
  of components the tables \<open>sii_dof_table\<close> and \<open>oiii_dof_table\<close> (5, 8 and 4 for
  one-component [SII], two-component [SII] and one-component [OIII] with continuum), for
  the eight H-beta and [NII]+H-alpha entry points the table \<open>dof\<close>; and the reduced
  chi-square returned with the fit is the one computed for the fitted model with this same
  count as \<^verbatim>\<open>n_free_params\<close>.
\<close>

theorem dof_is_n_free_params:
  "(n_sii \<in> {Some 2, Some 3, Some 4, Some 5}
      \<and> sii_fit w n_sii fit_cont = Some (gfit_sii, rchi2_sii, sii_dof)
     \<longrightarrow> sii_dof = sii_dof_table (two_components n_sii) fit_cont
         \<and> rchi2_sii = sii_chi2 w gfit_sii sii_dof)
   \<and> (n_oiii \<in> {Some 2, Some 3, Some 4, Some 5}
      \<and> oiii_fit w n_oiii fit_cont = Some (gfit_oiii, rchi2_oiii, oiii_dof)
     \<longrightarrow> oiii_dof = oiii_dof_table (two_components n_oiii) fit_cont
         \<and> rchi2_oiii = oiii_chi2 w gfit_oiii oiii_dof)
   \<and> (entry e red_chi2 gfit_no_broad gfit_broad fit_cont = Some (gfit, rchi2, flag_bits, n_dof)
     \<longrightarrow> (\<exists>with_broad. n_dof = dof e with_broad fit_cont
           \<and> rchi2 = red_chi2 (if with_broad then gfit_broad else gfit_no_broad) n_dof))
   \<and> sii_dof_table False True = 5 \<and> sii_dof_table True True = 8
   \<and> oiii_dof_table False True = 4"
proof (intro conjI impI)
  assume "n_sii \<in> {Some 2, Some 3, Some 4, Some 5}
      \<and> sii_fit w n_sii fit_cont = Some (gfit_sii, rchi2_sii, sii_dof)"
  then show "sii_dof = sii_dof_table (two_components n_sii) fit_cont"
    and "rchi2_sii = sii_chi2 w gfit_sii sii_dof"
    using sii_fit_dof by blast+
next
  assume "n_oiii \<in> {Some 2, Some 3, Some 4, Some 5}
      \<and> oiii_fit w n_oiii fit_cont = Some (gfit_oiii, rchi2_oiii, oiii_dof)"
  then show "oiii_dof = oiii_dof_table (two_components n_oiii) fit_cont"
    and "rchi2_oiii = oiii_chi2 w gfit_oiii oiii_dof"
    using oiii_fit_dof by blast+
next
  assume "entry e red_chi2 gfit_no_broad gfit_broad fit_cont
            = Some (gfit, rchi2, flag_bits, n_dof)"
  from entry_selects [OF this] obtain sig_n sig_b cand where
    "if broad_accepted e (red_chi2 gfit_no_broad (dof e False fit_cont))
                 (red_chi2 gfit_broad (dof e True fit_cont)) sig_n sig_b
            then gfit = cand \<and> rchi2 = red_chi2 gfit_broad (dof e True fit_cont)
                 \<and> n_dof = dof e True fit_cont
            else gfit = gfit_no_broad \<and> rchi2 = red_chi2 gfit_no_broad (dof e False fit_cont)
                 \<and> n_dof = dof e False fit_cont"
    by blast
  then show "\<exists>with_broad. n_dof = dof e with_broad fit_cont
           \<and> rchi2 = red_chi2 (if with_broad then gfit_broad else gfit_no_broad) n_dof"
    by (cases "broad_accepted e (red_chi2 gfit_no_broad (dof e False fit_cont))
                 (red_chi2 gfit_broad (dof e True fit_cont)) sig_n sig_b") auto
qed (simp_all add: sii_dof_table_def oiii_dof_table_def)

theorem dof_is_n_free_params_witness:
  "(Some 5 \<in> {Some 2, Some 3, Some 4, Some (5::nat)}
      \<and> sii_fit ex_world (Some 5) True = Some (ex_sii_two, 1, 8))
   \<and> (Some 3 \<in> {Some 2, Some 3, Some 4, Some (5::nat)}
      \<and> oiii_fit ex_world (Some 3) True = Some (ex_oiii_one, 1, 4))
   \<and> entry Hb_free_two ex_red_chi2 ex_hb2_no_broad ex_hb2_broad True
       = Some (ex_hb2_exchanged, 1, [2, 4, 6], 10)
   \<and> 8 = sii_dof_table (two_components (Some 5)) True
   \<and> 1 = sii_chi2 ex_world ex_sii_two 8
   \<and> 4 = oiii_dof_table (two_components (Some 3)) True
   \<and> 1 = oiii_chi2 ex_world ex_oiii_one 4
   \<and> (\<exists>with_broad. 10 = dof Hb_free_two with_broad True
           \<and> 1 = ex_red_chi2 (if with_broad then ex_hb2_broad else ex_hb2_no_broad) 10)"
proof -
  have s: "Some 5 \<in> {Some 2, Some 3, Some 4, Some (5::nat)}
      \<and> sii_fit ex_world (Some 5) True = Some (ex_sii_two, 1, 8)"
    by (simp add: ex_sii_fit_two)
  have o: "Some 3 \<in> {Some 2, Some 3, Some 4, Some (5::nat)}
      \<and> oiii_fit ex_world (Some 3) True = Some (ex_oiii_one, 1, 4)"
    by (simp add: ex_oiii_fit)
  have h: "entry Hb_free_two ex_red_chi2 ex_hb2_no_broad ex_hb2_broad True
       = Some (ex_hb2_exchanged, 1, [2, 4, 6], 10)"
    by (simp add: ex_hb_free_two)
  from s o h dof_is_n_free_params [of "Some 5" ex_world True ex_sii_two 1 8 "Some 3"
      ex_oiii_one 1 4 Hb_free_two ex_red_chi2 ex_hb2_no_broad ex_hb2_broad ex_hb2_exchanged 1
      "[2, 4, 6]" 10]
  show ?thesis by blast
qed


section \<open>Properties of the parameter table\<close>


lemma dict_get_dict_set: "dict_get (dict_set d k v) k' = (if k' = k then Some v else dict_get d k')"
  by (simp add: dict_get_def dict_set_def AList.update_conv')



text \<open>A key that the second dictionary lacks keeps its value in the merged dictionary.\<close>

lemma dict_get_dict_merge_left:
  assumes "k \<notin> set (colnames b)"
  shows "dict_get (dict_merge a b) k = dict_get a k"
proof -
  have "k \<notin> set (colnames b) \<Longrightarrow>
          dict_get (fold (\<lambda>(k, v) d. dict_set d k v) b a) k = dict_get a k" for a :: "'a dict"
  proof (induction b arbitrary: a)
    case Nil
    then show ?case by simp
  next
    case (Cons x b)
    obtain k' v where x: "x = (k', v)" by (cases x)
    from Cons.prems x have "k \<noteq> k'" "k \<notin> set (colnames b)"
      by (auto simp: colnames_def)
    with Cons.IH [of "dict_set a k' v"] show ?case
      by (simp add: x dict_get_dict_set)
  qed
  with assms show ?thesis by (simp add: dict_merge_def)
qed






lemma complex_params_raises:
  assumes "getitem gfit0 (emline @ ''_cont'') = None"
  shows "complex_params emline models gfit0 n_dof True = None"
  using assms by (cases "get_parameters gfit0 models") (simp_all add: complex_params_def)

lemma complex_params_no_continuum:
  assumes "complex_params emline models gfit0 n_dof False = Some (gfit, params)"
  shows "dict_get params (emline @ ''_continuum'') = Some 0"
proof -
  have "getitem (Const1D (emline @ ''_cont'') 0 # gfit0) (emline @ ''_cont'') = Some c
          \<Longrightarrow> amplitude c = 0" for c
    by (auto simp: getitem_Cons split: if_splits)
  with assms show ?thesis
    by (auto simp: complex_params_def Let_def dict_get_dict_set split: Option.bind_splits)
qed




subsection \<open>Evaluation on the concrete collaborators\<close>

lemma ex_world_sii:
  "sii_fit ex_world None True = Some (ex_sii_two, 1, 8)"
  "sii_fit ex_world (Some 5) True = Some (ex_sii_two, 1, 8)"
  "sii_fit ex_world_exchange (Some 5) True = Some (ex_sii_two, 1, 8)"
  by code_simp+

lemma ex_world_oiii:
  "oiii_fit ex_world None True = Some (ex_oiii_one, 1, 4)"
  "oiii_fit ex_world (Some 3) True = Some (ex_oiii_one, 1, 4)"
  "oiii_fit ex_world_exchange (Some 3) True = Some (ex_oiii_one, 1, 4)"
  by code_simp+

lemma ex_world_hb:
  "find_hb_best_fit ex_world g True = Some (ex_hb2_broad, 1, [3, 4], 8)"
  "find_hb_best_fit ex_world_exchange g True = Some (ex_hb2_exchanged, 1, [2, 4, 6], 10)"
  by (simp_all add: ex_world_def ex_world_exchange_def ex_hb_fixed_two ex_hb_free_two)

lemma ex_ha_fixed_two:
  "fit_nii_ha_lines_fit_fixed_two_components ex_red_chi2 ex_ha2_no_broad ex_ha2_broad True
     = Some (ex_ha2_no_broad, 2, [3, 4], 9)"
  by code_simp

lemma ex_world_nii_ha:
  "find_nii_ha_best_fit ex_world g True = Some (ex_ha2_no_broad, 2, [3, 4], 9)"
  "find_nii_ha_best_fit ex_world_exchange g True = Some (ex_ha2_no_broad, 2, [3, 4], 9)"
  by (simp_all add: ex_world_def ex_world_exchange_def ex_ha_fixed_two)


lemma ex_continuum:
  "getitem ex_hb2_broad (''hb'' @ ''_cont'') \<noteq> None"
  "getitem ex_oiii_one (''oiii'' @ ''_cont'') \<noteq> None"
  "getitem ex_ha2_no_broad (''nii_ha'' @ ''_cont'') \<noteq> None"
  "getitem ex_sii_two (''sii'' @ ''_cont'') \<noteq> None"
  "getitem ex_hb2_exchanged (''hb'' @ ''_cont'') = None"
  by code_simp+


text \<open>
  C10 fails on the code. When the H-beta selector hands back the result of
  \<^verbatim>\<open>fit_hb_line.fit_free_two_components\<close> and the fitted broad component was narrower than
  the outflow component, the winning model is the sum of three new Gaussians without the
  continuum, and with \<^verbatim>\<open>fit_cont = True\<close> the iteration raises at
  \<^verbatim>\<open>gfit_hb['hb_cont']\<close> instead of returning a table.
\<close>

theorem iteration_raises_after_exchange:
  "find_hb_best_fit ex_world_exchange ex_sii_two True
     = Some (ex_hb2_exchanged, 1, [2, 4, 6], 10)
   \<and> getitem ex_hb2_exchanged ''hb_cont'' = None
   \<and> fit_spectra_iteration ex_world_exchange (Some 5) (Some 3) True = None"
proof -
  have "complex_params ''hb'' hb_models ex_hb2_exchanged 10 True = None"
    by (rule complex_params_raises) (rule ex_continuum(5))
  then have "fit_spectra_iteration ex_world_exchange (Some 5) (Some 3) True = None"
    by (simp add: fit_spectra_iteration_def ex_world_sii ex_world_oiii ex_world_hb
        ex_world_nii_ha)
  with ex_world_hb(2) [of ex_sii_two] ex_continuum(5) show ?thesis by simp
qed


section \<open>Properties of the resampling loop\<close>









section \<open>Properties of the aggregation\<close>

lemma column_present:
  assumes "\<forall>row\<in>set table. dict_get row k \<noteq> None"
  shows "column table k = Some (values_in table k)"
  using assms
  by (induction table) (auto simp: column_def values_in_def value_of_def)

lemma all_positive_values:
  "all_positive (values_in t ka) (values_in t km) (values_in t ks)
     = map (\<lambda>row. value_of row ka > 0 \<and> value_of row km > 0 \<and> value_of row ks > 0) t"
  by (induction t) (simp_all add: all_positive_def values_in_def)

lemma isclose_zero_values:
  "list_all isclose_zero (values_in t k) = list_all (\<lambda>row. isclose_zero (value_of row k)) t"
  by (induction t) (simp_all add: values_in_def)

lemma np_where_not_map:
  "np_where_not (map P t) (map f t) = map (\<lambda>row. if P row then Some (f row) else None) t"
  by (induction t) (simp_all add: np_where_not_def)

lemma map_filter_masked:
  "List.map_filter id (map (\<lambda>row. if P row then Some (f row) else None) t) = map f (filter P t)"
  by (induction t) (simp_all add: List.map_filter_simps)

lemma masked_mean:
  "nanmean (np_where_not (map P t) (map f t))
     = (if filter P t = [] then None else Some (average (map f (filter P t))))"
  by (simp add: nanmean_def np_where_not_map map_filter_masked average_def Let_def)

lemma masked_map:
  "map (map_option g) (np_where_not (map P t) (map f t)) = np_where_not (map P t) (map (g \<circ> f) t)"
  by (simp add: np_where_not_map)

lemma masked_std:
  "nanstd (np_where_not (map P t) (map f t))
     = (if filter P t = [] then None else Some (deviation (map f (filter P t))))"
proof (cases "filter P t = []")
  case True
  then show ?thesis by (simp add: nanstd_def masked_mean)
next
  case False
  have "map (map_option g) (np_where_not (map P t) (map f t))
          = np_where_not (map P t) (map (g \<circ> f) t)" for g
    by (rule masked_map)
  then show ?thesis using False
    by (simp add: nanstd_def masked_mean deviation_def comp_def)
qed


lemma aggregate_model_eq:
  assumes "\<forall>row\<in>set table. \<forall>k\<in>set (five_keys model). dict_get row k \<noteq> None"
  shows "aggregate_model table model
           = Some (statistics_in_words table model)"
proof -
  from assms have c:
    "column table (model @ ''_amplitude'') = Some (values_in table (model @ ''_amplitude''))"
    "column table (model @ ''_mean'') = Some (values_in table (model @ ''_mean''))"
    "column table (model @ ''_std'') = Some (values_in table (model @ ''_std''))"
    "column table (model @ ''_flux'') = Some (values_in table (model @ ''_flux''))"
    "column table (model @ ''_sigma'') = Some (values_in table (model @ ''_sigma''))"
    by (simp_all add: column_present five_keys_def)
  have z: "(list_all isclose_zero (values_in table (model @ ''_amplitude''))
            \<or> list_all isclose_zero (values_in table (model @ ''_mean''))
            \<or> list_all isclose_zero (values_in table (model @ ''_std'')))
           = a_column_all_zero table model"
    by (simp add: a_column_all_zero_def isclose_zero_values)
  show ?thesis
  proof (cases "a_column_all_zero table model")
    case True
    then show ?thesis
      unfolding aggregate_model_def c Option.bind.simps Let_def z
      by (simp add: statistics_in_words_def constant_statistics_def statistic_suffixes_def)
  next
    case False
    note nz = this
    show ?thesis
    proof (cases "positive_rows table model = []")
      case True
      with nz show ?thesis
        unfolding aggregate_model_def c Option.bind.simps Let_def z all_positive_values
        by (simp add: statistics_in_words_def constant_statistics_def statistic_suffixes_def positive_rows_def values_in_def
                      masked_mean masked_std masked_map)
    next
      case False
      with nz show ?thesis
        unfolding aggregate_model_def c Option.bind.simps Let_def z all_positive_values
        by (simp add: statistics_in_words_def statistics_over_def positive_rows_def values_in_def Let_def
                      masked_mean masked_std masked_map comp_def)
    qed
  qed
qed


lemma aggregate_model_keys:
  assumes "aggregate_model table model = Some agg"
  shows "map fst agg = statistic_suffixes"
  using assms
  by (auto simp: aggregate_model_def Let_def statistic_suffixes_def
           split: Option.bind_splits if_splits)

lemma fold_dict_set_frame:
  assumes "K \<notin> set (map (\<lambda>(suffix, v). model @ suffix) vs)"
  shows "dict_get (fold (\<lambda>(suffix, v) d. dict_set d (model @ suffix) v) vs params) K
           = dict_get params K"
  using assms
  by (induction vs arbitrary: params) (auto simp: dict_get_dict_set)

lemma fold_dict_set_lookup:
  assumes "distinct (map fst vs)" and "(s, v) \<in> set vs"
  shows "dict_get (fold (\<lambda>(suffix, v) d. dict_set d (model @ suffix) v) vs params) (model @ s)
           = Some v"
  using assms
proof (induction vs arbitrary: params)
  case Nil
  then show ?case by simp
next
  case (Cons p vs)
  obtain s0 v0 where p: "p = (s0, v0)" by (cases p)
  show ?case
  proof (cases "(s, v) = (s0, v0)")
    case True
    with Cons.prems p have "s \<notin> fst ` set vs" by auto
    then have "model @ s \<notin> set (map (\<lambda>(suffix, v). model @ suffix) vs)" by force
    from fold_dict_set_frame [OF this] True p show ?thesis
      by (simp add: dict_get_dict_set)
  next
    case False
    with Cons.prems p have "distinct (map fst vs)" "(s, v) \<in> set vs" by auto
    from Cons.IH [OF this] p show ?thesis by simp
  qed
qed

lemma aggregate_model_suffix:
  assumes "aggregate_model table model = Some agg" and "(s, v) \<in> set agg"
  shows "s \<in> set statistic_suffixes"
proof -
  from assms(2) have "fst (s, v) \<in> fst ` set agg" by (rule imageI)
  then have "s \<in> set (map fst agg)" by simp
  with aggregate_model_keys [OF assms(1)] show ?thesis by simp
qed

lemma loop_frame:
  assumes "get_bestfit_parameters_loop table models emline params = Some p"
    and "K \<notin> set (concat (map keys_of models))"
    and "K \<noteq> emline @ ''_continuum''" and "K \<noteq> emline @ ''_continuum_err''"
  shows "dict_get p K = dict_get params K"
  using assms
proof (induction models arbitrary: params)
  case Nil
  then show ?case by simp
next
  case (Cons model models)
  from Cons.prems(1) obtain agg cont cont_err where
    a: "aggregate_model table model = Some agg"
    and r: "get_bestfit_parameters_loop table models emline
              (dict_set (dict_set (fold (\<lambda>(suffix, v) d. dict_set d (model @ suffix) v) agg params)
                 (emline @ ''_continuum'') cont) (emline @ ''_continuum_err'') cont_err) = Some p"
    by (auto simp: Let_def split: Option.bind_splits)
  from Cons.prems(2) have k: "K \<notin> set (keys_of model)" "K \<notin> set (concat (map keys_of models))"
    by simp_all
  from k(1) aggregate_model_suffix [OF a]
  have "K \<notin> set (map (\<lambda>(suffix, v). model @ suffix) agg)"
    by (auto simp: keys_of_def)
  from fold_dict_set_frame [OF this] Cons.IH [OF r k(2) Cons.prems(3,4)] Cons.prems(3,4)
  show ?case by (simp add: dict_get_dict_set)
qed

lemma loop_lookup:
  assumes "get_bestfit_parameters_loop table models emline params = Some p"
    and "model \<in> set models" and "separate_keys models emline"
    and "aggregate_model table model = Some agg" and "(s, v) \<in> set agg"
  shows "dict_get p (model @ s) = Some v"
  using assms(1,2,3)
proof (induction models arbitrary: params)
  case Nil
  then show ?case by simp
next
  case (Cons m models)
  from Cons.prems(1) obtain agg' cont cont_err where
    a: "aggregate_model table m = Some agg'"
    and r: "get_bestfit_parameters_loop table models emline
              (dict_set (dict_set (fold (\<lambda>(suffix, v) d. dict_set d (m @ suffix) v) agg' params)
                 (emline @ ''_continuum'') cont) (emline @ ''_continuum_err'') cont_err) = Some p"
    by (auto simp: Let_def split: Option.bind_splits)
  from Cons.prems(3) have sep: "separate_keys models emline"
    by (auto simp: separate_keys_def)
  from aggregate_model_suffix [OF assms(4,5)] have s: "s \<in> set statistic_suffixes" .
  then have key: "model @ s \<in> set (keys_of model)" by (simp add: keys_of_def)
  show ?case
  proof (cases "model \<in> set models")
    case True
    from Cons.IH [OF r True sep] show ?thesis .
  next
    case False
    with Cons.prems(2) have m: "m = model" by simp
    from Cons.prems(3) key m have
      n: "model @ s \<notin> set (concat (map keys_of models))"
      and c: "model @ s \<noteq> emline @ ''_continuum''" "model @ s \<noteq> emline @ ''_continuum_err''"
      by (auto simp: separate_keys_def)
    from aggregate_model_keys [OF assms(4)] have "distinct (map fst agg)"
      by (simp add: statistic_suffixes_def)
    from fold_dict_set_lookup [OF this assms(5)] a m assms(4) c loop_frame [OF r n c]
    show ?thesis by (simp add: dict_get_dict_set)
  qed
qed

lemma aggregate_continuum_returns:
  assumes "\<forall>row\<in>set table. dict_get row (emline @ ''_continuum'') \<noteq> None"
  shows "\<exists>c. aggregate_continuum table emline = Some c"
  using column_present [OF assms]
  by (simp add: aggregate_continuum_def Let_def)

lemma loop_returns:
  assumes "\<forall>row\<in>set table. \<forall>k\<in>set (columns_read models emline). dict_get row k \<noteq> None"
  shows "\<exists>p. get_bestfit_parameters_loop table models emline params = Some p"
  using assms
proof (induction models arbitrary: params)
  case Nil
  then show ?case by simp
next
  case (Cons model models)
  from Cons.prems have five: "\<forall>row\<in>set table. \<forall>k\<in>set (five_keys model). dict_get row k \<noteq> None"
    and cont: "\<forall>row\<in>set table. dict_get row (emline @ ''_continuum'') \<noteq> None"
    and rest: "\<forall>row\<in>set table. \<forall>k\<in>set (columns_read models emline). dict_get row k \<noteq> None"
    by (auto simp: columns_read_def)
  from aggregate_continuum_returns [OF cont] obtain c ce where
    c: "aggregate_continuum table emline = Some (c, ce)" by force
  from Cons.IH [OF rest] aggregate_model_eq [OF five] c show ?case
    by (simp add: Let_def)
qed

lemma get_bestfit_parameters_eq:
  assumes "\<forall>row\<in>set table. \<forall>k\<in>set (columns_read models emline). dict_get row k \<noteq> None"
    and "model \<in> set models" and "separate_keys models emline"
  shows "\<exists>params. get_bestfit_parameters table models emline = Some params
           \<and> (\<forall>(suffix, v)\<in>set (statistics_in_words table model).
                 dict_get params (model @ suffix) = Some v)"
proof -
  from loop_returns [OF assms(1)] obtain params where
    p: "get_bestfit_parameters_loop table models emline [] = Some params"
    by blast
  from assms(1,2) have "\<forall>row\<in>set table. \<forall>k\<in>set (five_keys model). dict_get row k \<noteq> None"
    by (auto simp: columns_read_def)
  from aggregate_model_eq [OF this]
  have a: "aggregate_model table model = Some (statistics_in_words table model)" .
  have "\<forall>(suffix, v)\<in>set (statistics_in_words table model).
          dict_get params (model @ suffix) = Some v"
    using loop_lookup [OF p assms(2,3) a] by blast
  with p show ?thesis by (simp add: get_bestfit_parameters_def)
qed

lemma separate_keys_complexes:
  "separate_keys hb_models ''hb''" "separate_keys oiii_models ''oiii''"
  "separate_keys nii_ha_models ''nii_ha''" "separate_keys sii_models ''sii''"
  by code_simp+

lemma separate_keys_hb_b: "separate_keys [''hb_b''] ''hb''"
  by code_simp

lemma average_replicate: "0 < N \<Longrightarrow> average (replicate N x) = x"
  by (simp add: average_def sum_list_replicate)

lemma deviation_replicate: "0 < N \<Longrightarrow> deviation (replicate N x) = 0"
  by (simp add: deviation_def average_replicate)



lemma statistics_over_replicate:
  assumes "0 < N"
    and "value_of row (model @ ''_std'') > 0"
  shows "statistics_over (replicate N row) model =
     [(''_amplitude'', Some (value_of row (model @ ''_amplitude''))), (''_amplitude_err'', Some 0),
      (''_mean'', Some (value_of row (model @ ''_mean''))), (''_mean_err'', Some 0),
      (''_std'', Some (value_of row (model @ ''_std''))), (''_std_err'', Some 0),
      (''_sigma'', Some (lamspace_to_velspace (value_of row (model @ ''_std''))
                          (value_of row (model @ ''_mean'')))),
      (''_sigma_err'', Some 0),
      (''_flux'', Some (compute_emline_flux (value_of row (model @ ''_amplitude''))
                         (value_of row (model @ ''_std'')))),
      (''_flux_err'', Some 0),
      (''_flux_fits'', Some (value_of row (model @ ''_flux''))), (''_flux_err_fits'', Some 0),
      (''_sigma_fits'', Some (value_of row (model @ ''_sigma''))),
      (''_sigma_err_fits'', Some 0)]"
  using assms
  by (simp add: statistics_over_def values_in_def Let_def average_replicate deviation_replicate
        compute_emline_flux_err_def lamspace_to_velspace_err_def)


subsection \<open>The concrete tables\<close>

lemma component_row_hb_b:
  "dict_get (component_row ''hb_b'' a m s ''hb'' c) ''hb_b_amplitude'' = Some a"
  "dict_get (component_row ''hb_b'' a m s ''hb'' c) ''hb_b_mean'' = Some m"
  "dict_get (component_row ''hb_b'' a m s ''hb'' c) ''hb_b_std'' = Some s"
  "dict_get (component_row ''hb_b'' a m s ''hb'' c) ''hb_b_sigma'' = Some (lamspace_to_velspace s m)"
  "dict_get (component_row ''hb_b'' a m s ''hb'' c) ''hb_b_flux'' = Some (compute_emline_flux a s)"
  "dict_get (component_row ''hb_b'' a m s ''hb'' c) ''hb_continuum'' = Some c"
  by (simp_all add: component_row_def set_five_def dict_get_dict_set)

lemma component_row_value_of:
  "value_of (component_row ''hb_b'' a m s ''hb'' c) ''hb_b_amplitude'' = a"
  "value_of (component_row ''hb_b'' a m s ''hb'' c) ''hb_b_mean'' = m"
  "value_of (component_row ''hb_b'' a m s ''hb'' c) ''hb_b_std'' = s"
  "value_of (component_row ''hb_b'' a m s ''hb'' c) ''hb_b_sigma'' = lamspace_to_velspace s m"
  "value_of (component_row ''hb_b'' a m s ''hb'' c) ''hb_b_flux'' = compute_emline_flux a s"
  by (simp_all add: value_of_def component_row_hb_b)

lemma component_row_columns:
  "\<forall>k\<in>set (columns_read [''hb_b''] ''hb''). dict_get (component_row ''hb_b'' a m s ''hb'' c) k \<noteq> None"
  by (simp add: columns_read_def five_keys_def component_row_hb_b)

lemma ex_degenerate_statistics:
  "statistics_in_words ex_degenerate_table ''hb_b'' = constant_statistics None"
  by (simp add: statistics_in_words_def ex_degenerate_table_def a_column_all_zero_def
        positive_rows_def component_row_value_of isclose_zero_def)

lemma ex_faint_statistics:
  "statistics_in_words ex_faint_table ''hb_b'' = constant_statistics (Some 0)"
  by (simp add: statistics_in_words_def ex_faint_table_def a_column_all_zero_def
        component_row_value_of isclose_zero_def)


lemma ex_mixed_statistics:
  "statistics_in_words ex_mixed_table ''hb_b'' =
     [(''_amplitude'', Some 2), (''_amplitude_err'', Some 0),
      (''_mean'', Some 4862.683), (''_mean_err'', Some 0),
      (''_std'', Some 3), (''_std_err'', Some 0),
      (''_sigma'', Some (lamspace_to_velspace 3 4862.683)), (''_sigma_err'', Some 0),
      (''_flux'', Some (compute_emline_flux 2 3)), (''_flux_err'', Some 0),
      (''_flux_fits'', Some (compute_emline_flux 2 3)), (''_flux_err_fits'', Some 0),
      (''_sigma_fits'', Some (lamspace_to_velspace 3 4862.683)), (''_sigma_err_fits'', Some 0)]"
proof -
  have z: "\<not> a_column_all_zero ex_mixed_table ''hb_b''"
    by (simp add: ex_mixed_table_def a_column_all_zero_def component_row_value_of isclose_zero_def)
  have p: "positive_rows ex_mixed_table ''hb_b''
             = replicate 1 (component_row ''hb_b'' 2 4862.683 3 ''hb'' 0)"
    by (simp add: ex_mixed_table_def positive_rows_def component_row_value_of)
  show ?thesis
    unfolding statistics_in_words_def p
    using z statistics_over_replicate [of 1 "component_row ''hb_b'' 2 4862.683 3 ''hb'' 0" "''hb_b''"]
    by (simp add: component_row_value_of)
qed


text \<open>
  The row of an absent component: \<^verbatim>\<open>get_parameters\<close> writes five zeros, which is the row of
  amplitude, mean and stddev zero.
\<close>

lemma component_row_absent:
  "component_row model 0 0 0 emline c
     = dict_set (set_five [] model 0 0 0 0 0) (emline @ ''_continuum'') c"
  by (simp add: component_row_def lamspace_to_velspace_def compute_emline_flux_def)

text \<open>
  On a table in which every iteration has the component either absent (all zero) or fitted
  within the bounds of the fitters (amplitude at least 0, mean and stddev positive), the two
  guards agree when no iteration counts: the amplitude column is zero throughout.
\<close>

lemma no_positive_rows_within_bounds:
  assumes "\<forall>row\<in>set table.
             (value_of row (model @ ''_amplitude'') = 0 \<and> value_of row (model @ ''_mean'') = 0
                \<and> value_of row (model @ ''_std'') = 0)
             \<or> (value_of row (model @ ''_amplitude'') \<ge> 0 \<and> value_of row (model @ ''_mean'') > 0
                \<and> value_of row (model @ ''_std'') > 0)"
    and "positive_rows table model = []"
  shows "a_column_all_zero table model"
proof -
  from assms(2) have "\<forall>row\<in>set table. \<not> (value_of row (model @ ''_amplitude'') > 0
      \<and> value_of row (model @ ''_mean'') > 0 \<and> value_of row (model @ ''_std'') > 0)"
    by (simp add: positive_rows_def filter_empty_conv)
  with assms(1) have "\<forall>row\<in>set table. value_of row (model @ ''_amplitude'') = 0"
    by fastforce
  then show ?thesis
    by (simp add: a_column_all_zero_def list_all_iff isclose_zero_def)
qed

section \<open>The aggregated statistics\<close>

text \<open>
  C7, as the code has it. When every row of the table has the columns that the
  aggregation reads, and the keys of the expected components do not collide,
  \<^verbatim>\<open>get_bestfit_parameters\<close> returns, and for each expected component it stores: zero under
  all fourteen keys exactly when the amplitude column, the mean column or the stddev
  column is within 1e-8 of zero in every iteration; otherwise NaN under all fourteen keys
  when no iteration has amplitude, mean and stddev all positive; and otherwise the
  statistics over the iterations with amplitude, mean and stddev all positive, and over
  these only: mean and standard deviation of amplitude and of mean, the root of the mean
  square of stddev (with the root of the standard deviation of the squares as its error),
  flux and velocity dispersion recomputed from these values, and the plain mean and
  standard deviation of the per-iteration flux and velocity dispersion under the
  \<^verbatim>\<open>_fits\<close> keys.
\<close>

theorem bestfit_statistics_over_positive_iterations:
  assumes "\<forall>row\<in>set table. \<forall>k\<in>set (columns_read models emline). dict_get row k \<noteq> None"
    and "model \<in> set models" and "separate_keys models emline"
  shows "\<exists>params. get_bestfit_parameters table models emline = Some params
           \<and> (\<forall>(suffix, v)\<in>set (statistics_in_words table model).
                 dict_get params (model @ suffix) = Some v)"
  using assms by (rule get_bestfit_parameters_eq)

text \<open>
  On a table of two iterations, the component absent in the first (all zero) and fitted
  with amplitude 2, mean 4862.683 and stddev 3 in the second, the statistics are those of
  the second iteration alone.
\<close>

theorem bestfit_statistics_over_positive_iterations_witness:
  "\<exists>params. get_bestfit_parameters ex_mixed_table [''hb_b''] ''hb'' = Some params
     \<and> dict_get params ''hb_b_amplitude'' = Some (Some 2)
     \<and> dict_get params ''hb_b_amplitude_err'' = Some (Some 0)
     \<and> dict_get params ''hb_b_mean'' = Some (Some 4862.683)
     \<and> dict_get params ''hb_b_mean_err'' = Some (Some 0)
     \<and> dict_get params ''hb_b_std'' = Some (Some 3)
     \<and> dict_get params ''hb_b_std_err'' = Some (Some 0)
     \<and> dict_get params ''hb_b_sigma'' = Some (Some (lamspace_to_velspace 3 4862.683))
     \<and> dict_get params ''hb_b_sigma_err'' = Some (Some 0)
     \<and> dict_get params ''hb_b_flux'' = Some (Some (compute_emline_flux 2 3))
     \<and> dict_get params ''hb_b_flux_err'' = Some (Some 0)
     \<and> dict_get params ''hb_b_flux_fits'' = Some (Some (compute_emline_flux 2 3))
     \<and> dict_get params ''hb_b_flux_err_fits'' = Some (Some 0)
     \<and> dict_get params ''hb_b_sigma_fits'' = Some (Some (lamspace_to_velspace 3 4862.683))
     \<and> dict_get params ''hb_b_sigma_err_fits'' = Some (Some 0)"
proof -
  have c: "\<forall>row\<in>set ex_mixed_table. \<forall>k\<in>set (columns_read [''hb_b''] ''hb'').
             dict_get row k \<noteq> None"
    using component_row_columns by (simp add: ex_mixed_table_def)
  have m: "''hb_b'' \<in> set [''hb_b'']" by simp
  from bestfit_statistics_over_positive_iterations [OF c m separate_keys_hb_b]
  show ?thesis unfolding ex_mixed_statistics by simp
qed

text \<open>
  C7 as stated fails in both of its parts. In \<open>ex_degenerate_table\<close> no iteration has
  amplitude, mean and stddev all positive (the component is absent in one and has a
  negative amplitude in the other), and the values stored are NaN, not zero. In
  \<open>ex_faint_table\<close> both iterations have amplitude, mean and stddev positive, and zero is
  stored instead of the statistics over them (the mean of the amplitudes is 5e-9).
\<close>

theorem bestfit_statistics_counterexample:
  "positive_rows ex_degenerate_table ''hb_b'' = []
   \<and> (\<exists>params. get_bestfit_parameters ex_degenerate_table [''hb_b''] ''hb'' = Some params
        \<and> dict_get params ''hb_b_amplitude'' = Some None
        \<and> dict_get params ''hb_b_amplitude_err'' = Some None
        \<and> dict_get params ''hb_b_mean'' = Some None
        \<and> dict_get params ''hb_b_mean_err'' = Some None
        \<and> dict_get params ''hb_b_flux_fits'' = Some None
        \<and> dict_get params ''hb_b_sigma_fits'' = Some None)
   \<and> positive_rows ex_faint_table ''hb_b'' = ex_faint_table
   \<and> average (values_in ex_faint_table ''hb_b_amplitude'') = 5 / 10 ^ 9
   \<and> (\<exists>params. get_bestfit_parameters ex_faint_table [''hb_b''] ''hb'' = Some params
        \<and> dict_get params ''hb_b_amplitude'' = Some (Some 0)
        \<and> dict_get params ''hb_b_mean'' = Some (Some 0)
        \<and> dict_get params ''hb_b_std'' = Some (Some 0)
        \<and> dict_get params ''hb_b_flux_fits'' = Some (Some 0))"
proof -
  have c1: "\<forall>row\<in>set ex_degenerate_table. \<forall>k\<in>set (columns_read [''hb_b''] ''hb'').
              dict_get row k \<noteq> None"
    using component_row_columns by (simp add: ex_degenerate_table_def)
  have c2: "\<forall>row\<in>set ex_faint_table. \<forall>k\<in>set (columns_read [''hb_b''] ''hb'').
              dict_get row k \<noteq> None"
    using component_row_columns by (simp add: ex_faint_table_def)
  have m: "''hb_b'' \<in> set [''hb_b'']" by simp
  have p1: "positive_rows ex_degenerate_table ''hb_b'' = []"
    by (simp add: ex_degenerate_table_def positive_rows_def component_row_value_of)
  have p2: "positive_rows ex_faint_table ''hb_b'' = ex_faint_table"
    by (simp add: ex_faint_table_def positive_rows_def component_row_value_of)
  have a: "average (values_in ex_faint_table ''hb_b_amplitude'') = 5 / 10 ^ 9"
    by (simp add: ex_faint_table_def values_in_def average_def component_row_value_of)
  from get_bestfit_parameters_eq [OF c1 m separate_keys_hb_b]
  have d: "\<exists>params. get_bestfit_parameters ex_degenerate_table [''hb_b''] ''hb'' = Some params
        \<and> dict_get params ''hb_b_amplitude'' = Some None
        \<and> dict_get params ''hb_b_amplitude_err'' = Some None
        \<and> dict_get params ''hb_b_mean'' = Some None
        \<and> dict_get params ''hb_b_mean_err'' = Some None
        \<and> dict_get params ''hb_b_flux_fits'' = Some None
        \<and> dict_get params ''hb_b_sigma_fits'' = Some None"
    unfolding ex_degenerate_statistics
    by (simp add: constant_statistics_def statistic_suffixes_def) blast
  from get_bestfit_parameters_eq [OF c2 m separate_keys_hb_b]
  have f: "\<exists>params. get_bestfit_parameters ex_faint_table [''hb_b''] ''hb'' = Some params
        \<and> dict_get params ''hb_b_amplitude'' = Some (Some 0)
        \<and> dict_get params ''hb_b_mean'' = Some (Some 0)
        \<and> dict_get params ''hb_b_std'' = Some (Some 0)
        \<and> dict_get params ''hb_b_flux_fits'' = Some (Some 0)"
    unfolding ex_faint_statistics
    by (simp add: constant_statistics_def statistic_suffixes_def) blast
  from p1 d p2 a f show ?thesis by (intro conjI)
qed




end
